theory Spec2Isabelle
  imports Main
begin

section \<open>Data model (package model)\<close>

text \<open>
  Go strings are byte sequences and are modelled as \<open>string\<close> (a list of 8-bit
  characters). A Go \<open>int\<close> is modelled as \<open>int\<close>: the counters below are
  bounded by the number of rows read, far from the 64-bit range.
\<close>

record Column =
  Name :: string
  Type :: string

section \<open>Type inference over sampled values (flatfile.go)\<close>

subsection \<open>The standard library calls\<close>

text \<open>
  \<open>strconv.ParseInt(value, 10, 64)\<close>, \<open>strconv.ParseFloat(value, 64)\<close>,
  \<open>strconv.ParseBool(value)\<close> and \<open>time.Parse(layout, value)\<close> belong to Go's
  standard library, not to the repository. They are parameters of the model: each
  returns \<open>Some\<close> of the parsed value when the call returns a nil error and \<open>None\<close>
  otherwise. \<open>'f\<close> stands for float64 and \<open>'t\<close> for time.Time.
\<close>

record ('f, 't) stdlib =
  ParseInt :: "string \<Rightarrow> int option"
  ParseFloat :: "string \<Rightarrow> 'f option"
  ParseBool :: "string \<Rightarrow> bool option"
  time_Parse :: "string \<Rightarrow> string \<Rightarrow> 't option"

subsection \<open>inferType\<close>

definition RFC3339 :: string where
  "RFC3339 = ''2006-01-02T15:04:05Z07:00''"

definition dateFormats :: "string list" where
  "dateFormats =
     [''2006-01-02'', ''2006/01/02'', ''01/02/2006'', ''01-02-2006'',
      ''2006-01-02 15:04:05'', ''2006/01/02 15:04:05'', RFC3339]"

text \<open>
  The loop \<open>for _, format := range dateFormats\<close> of inferType: \<open>True\<close> when it
  returns from inside the loop, at the first layout that parses.
\<close>

fun any_format_parses :: "('f, 't) stdlib \<Rightarrow> string list \<Rightarrow> string \<Rightarrow> bool" where
  "any_format_parses L [] v = False"
| "any_format_parses L (format # formats) v =
     (if time_Parse L format v \<noteq> None then True else any_format_parses L formats v)"

definition inferType :: "('f, 't) stdlib \<Rightarrow> string \<Rightarrow> string" where
  "inferType L v =
     (if v = [] then ''Nullable(String)''
      else if ParseInt L v \<noteq> None then ''Int64''
      else if ParseFloat L v \<noteq> None then ''Float64''
      else if any_format_parses L dateFormats v then ''DateTime''
      else ''String'')"

subsection \<open>getDominantType\<close>

text \<open>
  \<open>counts\<close> is a Go \<open>map[string]int\<close>: reading a missing key yields 0 and does
  not insert it; \<open>counts[t]++\<close> inserts or increments.
\<close>

type_synonym counts = "string \<rightharpoonup> int"

definition lookup :: "counts \<Rightarrow> string \<Rightarrow> int" where
  "lookup counts t = (case counts t of None \<Rightarrow> 0 | Some c \<Rightarrow> c)"

definition incr :: "counts \<Rightarrow> string \<Rightarrow> counts" where
  "incr counts t = counts(t \<mapsto> lookup counts t + 1)"

text \<open>The loop \<open>for _, t := range types { counts[t]++ }\<close>.\<close>

fun count_types :: "counts \<Rightarrow> string list \<Rightarrow> counts" where
  "count_types counts [] = counts"
| "count_types counts (t # ts) = count_types (incr counts t) ts"

text \<open>
  The loop \<open>for t, count := range counts\<close> with its two variables \<open>maxCount\<close> and
  \<open>dominantType\<close>. Go leaves the iteration order of a map unspecified, so the order in
  which the keys are visited is the explicit argument \<open>keys\<close>; \<open>range_order\<close> says
  that it is an enumeration of the keys of the map, each visited once.
\<close>

fun most_common :: "counts \<Rightarrow> string list \<Rightarrow> int \<times> string \<Rightarrow> int \<times> string" where
  "most_common counts [] (maxCount, dominantType) = (maxCount, dominantType)"
| "most_common counts (t # keys) (maxCount, dominantType) =
     (if lookup counts t > maxCount
      then most_common counts keys (lookup counts t, t)
      else most_common counts keys (maxCount, dominantType))"

definition range_order :: "counts \<Rightarrow> string list \<Rightarrow> bool" where
  "range_order counts keys = (distinct keys \<and> set keys = dom counts)"

definition getDominantType :: "string list \<Rightarrow> string list \<Rightarrow> string" where
  "getDominantType keys types =
     (if length types = 0 then ''String''
      else
        let counts = count_types Map.empty types;
            dominantType = snd (most_common counts keys (0, ''String''))
        in if lookup counts ''Int64'' > 0 \<and> lookup counts ''Float64'' > 0 then ''Float64''
           else if lookup counts ''Nullable(String)'' > 0 \<and> dominantType \<noteq> ''String''
             then ''Nullable('' @ dominantType @ '')''
           else dominantType)"

section \<open>Properties of the type inferencer\<close>

lemma lookup_incr: "lookup (incr counts t) k = (if k = t then lookup counts t + 1 else lookup counts k)"
  by (simp add: lookup_def incr_def)

lemma lookup_count_types:
  "lookup (count_types counts ts) k = lookup counts k + int (count_list ts k)"
  by (induction ts arbitrary: counts) (auto simp: lookup_incr)

lemma lookup_empty: "lookup Map.empty k = 0"
  by (simp add: lookup_def)

lemma lookup_counted_pos:
  "k \<in> set ts \<Longrightarrow> lookup (count_types Map.empty ts) k > 0"
  using count_list_0_iff [of ts k]
  by (simp add: lookup_count_types lookup_empty)

lemma dom_incr: "dom (incr counts t) = insert t (dom counts)"
  by (simp add: incr_def)

lemma dom_count_types: "dom (count_types counts ts) = dom counts \<union> set ts"
  by (induction ts arbitrary: counts) (auto simp: dom_incr)

lemma any_format_parses_iff:
  "any_format_parses L formats v \<longleftrightarrow> (\<exists>format \<in> set formats. time_Parse L format v \<noteq> None)"
  by (induction formats) auto

lemma widen_to_Float64:
  assumes "''Int64'' \<in> set types" and "''Float64'' \<in> set types"
  shows "getDominantType keys types = ''Float64''"
proof -
  from assms(1) have ne: "length types \<noteq> 0" by auto
  have "lookup (count_types Map.empty types) ''Int64'' > 0"
    using assms(1) by (rule lookup_counted_pos)
  moreover have "lookup (count_types Map.empty types) ''Float64'' > 0"
    using assms(2) by (rule lookup_counted_pos)
  ultimately show ?thesis
    using ne by (simp add: getDominantType_def Let_def)
qed

text \<open>
  C4. Whenever both \<open>Int64\<close> and \<open>Float64\<close> occur among the classifications,
  getDominantType returns \<open>Float64\<close>, whatever the counts of the two, whatever other
  types occur, and in whatever order the map is iterated.
\<close>

theorem getDominantType_widens:
  "''Int64'' \<in> set types \<Longrightarrow> ''Float64'' \<in> set types \<Longrightarrow>
   getDominantType keys types = ''Float64''"
  by (rule widen_to_Float64)

theorem getDominantType_widens_witness:
  "''Int64'' \<in> set [''Int64'', ''Int64'', ''String'', ''Int64'', ''Float64''] \<and>
   ''Float64'' \<in> set [''Int64'', ''Int64'', ''String'', ''Int64'', ''Float64''] \<and>
   getDominantType [''Int64'', ''String'', ''Float64'']
     [''Int64'', ''Int64'', ''String'', ''Int64'', ''Float64''] = ''Float64''"
  using getDominantType_widens
    [of "[''Int64'', ''Int64'', ''String'', ''Int64'', ''Float64'']"
        "[''Int64'', ''String'', ''Float64'']"]
  by simp

text \<open>
  C3, at the sample Int64, Float64, empty value. The return of the Int64/Float64 case
  comes before the test for empty values, so the column type is the bare \<open>Float64\<close>
  and not \<open>Nullable(Float64)\<close>, in whatever order the map is iterated.
\<close>

theorem getDominantType_widening_not_Nullable:
  "getDominantType keys [''Int64'', ''Float64'', ''Nullable(String)''] = ''Float64'' \<and>
   getDominantType keys [''Int64'', ''Float64'', ''Nullable(String)''] \<noteq> ''Nullable(Float64)''"
proof -
  have "getDominantType keys [''Int64'', ''Float64'', ''Nullable(String)''] = ''Float64''"
    by (rule widen_to_Float64) simp_all
  then show ?thesis by simp
qed

text \<open>
  C5. inferType applies the first rule that matches, in the order: empty value, integer
  parse, float parse, one of the date layouts, otherwise String. The five examples of
  the specification follow, each from the outcome of the standard library's parsers on
  that literal.
\<close>

theorem inferType_first_match:
  "inferType L [] = ''Nullable(String)'' \<and>
   (v \<noteq> [] \<longrightarrow> ParseInt L v \<noteq> None \<longrightarrow> inferType L v = ''Int64'') \<and>
   (v \<noteq> [] \<longrightarrow> ParseInt L v = None \<longrightarrow> ParseFloat L v \<noteq> None \<longrightarrow>
      inferType L v = ''Float64'') \<and>
   (v \<noteq> [] \<longrightarrow> ParseInt L v = None \<longrightarrow> ParseFloat L v = None \<longrightarrow>
      (\<exists>format \<in> set dateFormats. time_Parse L format v \<noteq> None) \<longrightarrow>
      inferType L v = ''DateTime'') \<and>
   (v \<noteq> [] \<longrightarrow> ParseInt L v = None \<longrightarrow> ParseFloat L v = None \<longrightarrow>
      (\<forall>format \<in> set dateFormats. time_Parse L format v = None) \<longrightarrow>
      inferType L v = ''String'') \<and>
   (ParseInt L ''42'' \<noteq> None \<longrightarrow> inferType L ''42'' = ''Int64'') \<and>
   (ParseInt L ''3.14'' = None \<and> ParseFloat L ''3.14'' \<noteq> None \<longrightarrow>
      inferType L ''3.14'' = ''Float64'') \<and>
   (ParseInt L ''2024-01-02'' = None \<and> ParseFloat L ''2024-01-02'' = None \<and>
    time_Parse L ''2006-01-02'' ''2024-01-02'' \<noteq> None \<longrightarrow>
      inferType L ''2024-01-02'' = ''DateTime'') \<and>
   (ParseInt L ''abc'' = None \<and> ParseFloat L ''abc'' = None \<and>
    (\<forall>format \<in> set dateFormats. time_Parse L format ''abc'' = None) \<longrightarrow>
      inferType L ''abc'' = ''String'')"
proof -
  have date: "time_Parse L ''2006-01-02'' ''2024-01-02'' \<noteq> None \<Longrightarrow>
      any_format_parses L dateFormats ''2024-01-02''"
    by (simp add: dateFormats_def)
  show ?thesis
    using date by (auto simp: inferType_def any_format_parses_iff)
qed

text \<open>
  An instance of the library parameters for the examples: it agrees with Go's parsers
  on the five literals of the specification and rejects everything else.
\<close>

definition example_stdlib :: "(unit, unit) stdlib" where
  "example_stdlib =
     \<lparr>ParseInt = (\<lambda>s. if s = ''42'' then Some 42 else None),
      ParseFloat = (\<lambda>s. if s = ''42'' \<or> s = ''3.14'' then Some () else None),
      ParseBool = (\<lambda>s. None),
      time_Parse = (\<lambda>layout s.
        if layout = ''2006-01-02'' \<and> s = ''2024-01-02'' then Some () else None)\<rparr>"

theorem inferType_first_match_witness:
  "inferType example_stdlib [] = ''Nullable(String)'' \<and>
   inferType example_stdlib ''42'' = ''Int64'' \<and>
   inferType example_stdlib ''3.14'' = ''Float64'' \<and>
   inferType example_stdlib ''2024-01-02'' = ''DateTime'' \<and>
   inferType example_stdlib ''abc'' = ''String''"
  using inferType_first_match [of example_stdlib "''42''"]
    inferType_first_match [of example_stdlib "''3.14''"]
    inferType_first_match [of example_stdlib "''2024-01-02''"]
    inferType_first_match [of example_stdlib "''abc''"]
  by (simp add: example_stdlib_def dateFormats_def RFC3339_def)

text \<open>
  C8, at a column whose only sampled value is empty. inferType classifies the empty value
  as \<open>Nullable(String)\<close>; that sentinel is then the only key of the map, so it is the
  dominant type, it differs from \<open>String\<close>, and getDominantType wraps it a second
  time: the result is \<open>Nullable(Nullable(String))\<close>, outside the taxonomy.
\<close>

theorem getDominantType_nested_Nullable:
  "getDominantType [''Nullable(String)''] [inferType L []] = ''Nullable(Nullable(String))''"
  by (simp add: getDominantType_def inferType_def Let_def lookup_incr lookup_empty)

section \<open>Join query synthesis (clickhouse.go)\<close>

record JoinTableInfo =
  Name :: string
  JoinType :: string
  JoinCondition :: string
  SelectedColumns :: "string list"

record JoinParams =
  Tables :: "JoinTableInfo list"
  WhereClause :: string

text \<open>\<open>strings.Join(elems, sep)\<close>.\<close>

fun Join :: "string list \<Rightarrow> string \<Rightarrow> string" where
  "Join [] sep = []"
| "Join [e] sep = e"
| "Join (e # e' # elems) sep = e @ sep @ Join (e' # elems) sep"

text \<open>
  The nested loops that fill \<open>allColumns\<close>: for every table in order, for every
  selected column of it in order, append \<open>fmt.Sprintf("%s.%s", table.Name, col)\<close>.
\<close>

fun append_columns :: "string \<Rightarrow> string list \<Rightarrow> string list \<Rightarrow> string list" where
  "append_columns name [] allColumns = allColumns"
| "append_columns name (col # cols) allColumns =
     append_columns name cols (allColumns @ [name @ ''.'' @ col])"

fun collect_columns :: "JoinTableInfo list \<Rightarrow> string list \<Rightarrow> string list" where
  "collect_columns [] allColumns = allColumns"
| "collect_columns (table # tables) allColumns =
     collect_columns tables
       (append_columns (JoinTableInfo.Name table) (SelectedColumns table) allColumns)"

text \<open>
  The loop \<open>for i := 1; i < len(params.Tables); i++\<close> over the tables after the
  first; \<open>Inl\<close> is the error it returns from inside the loop.
\<close>

fun add_joins :: "JoinTableInfo list \<Rightarrow> string \<Rightarrow> string + string" where
  "add_joins [] query = Inr query"
| "add_joins (joinTable # rest) query =
     (let joinType = (if JoinType joinTable \<noteq> [] then JoinType joinTable else ''INNER JOIN'')
      in if JoinCondition joinTable = []
         then Inl (''join condition is required for table '' @ JoinTableInfo.Name joinTable)
         else add_joins rest
                (query @ '' '' @ joinType @ '' '' @ JoinTableInfo.Name joinTable @
                 '' ON '' @ JoinCondition joinTable))"

definition BuildJoinQuery :: "JoinParams \<Rightarrow> string + string" where
  "BuildJoinQuery params =
     (if length (Tables params) < 2
      then Inl ''at least two tables are required for a join''
      else
        let mainTable = Tables params ! 0;
            allColumns = collect_columns (Tables params) []
        in if length allColumns = 0 then Inl ''no columns selected''
           else
             let query = ''SELECT '' @ Join allColumns '', '' @ '' FROM '' @
                         JoinTableInfo.Name mainTable
             in case add_joins (drop 1 (Tables params)) query of
                  Inl err \<Rightarrow> Inl err
                | Inr query \<Rightarrow>
                    Inr (if WhereClause params \<noteq> []
                         then query @ '' WHERE '' @ WhereClause params
                         else query))"

subsection \<open>The query as the specification words it\<close>

definition qualified_columns :: "JoinParams \<Rightarrow> string list" where
  "qualified_columns params =
     concat (map (\<lambda>t. map (\<lambda>col. JoinTableInfo.Name t @ ''.'' @ col) (SelectedColumns t))
                 (Tables params))"

definition join_clause :: "JoinTableInfo \<Rightarrow> string" where
  "join_clause t =
     '' '' @ (if JoinType t = [] then ''INNER JOIN'' else JoinType t) @
     '' '' @ JoinTableInfo.Name t @ '' ON '' @ JoinCondition t"

definition join_query_spec :: "JoinParams \<Rightarrow> string" where
  "join_query_spec params =
     ''SELECT '' @ Join (qualified_columns params) '', '' @
     '' FROM '' @ JoinTableInfo.Name (hd (Tables params)) @
     concat (map join_clause (tl (Tables params))) @
     (if WhereClause params = [] then [] else '' WHERE '' @ WhereClause params)"

definition join_invalid :: "JoinParams \<Rightarrow> bool" where
  "join_invalid params \<longleftrightarrow>
     length (Tables params) < 2 \<or>
     (\<exists>t \<in> set (tl (Tables params)). JoinCondition t = []) \<or>
     (\<forall>t \<in> set (Tables params). SelectedColumns t = [])"

subsection \<open>Properties of BuildJoinQuery\<close>

lemma append_columns_eq:
  "append_columns name cols acc = acc @ map (\<lambda>col. name @ ''.'' @ col) cols"
  by (induction cols arbitrary: acc) auto

lemma collect_columns_eq:
  "collect_columns ts acc =
     acc @ concat (map (\<lambda>t. map (\<lambda>col. JoinTableInfo.Name t @ ''.'' @ col) (SelectedColumns t)) ts)"
  by (induction ts arbitrary: acc) (auto simp: append_columns_eq)

lemma add_joins_error:
  "(\<exists>err. add_joins ts q = Inl err) \<longleftrightarrow> (\<exists>t \<in> set ts. JoinCondition t = [])"
  by (induction ts arbitrary: q) (auto simp: Let_def)

lemma add_joins_ok:
  "\<forall>t \<in> set ts. JoinCondition t \<noteq> [] \<Longrightarrow>
   add_joins ts q = Inr (q @ concat (map join_clause ts))"
  by (induction ts arbitrary: q) (auto simp: Let_def join_clause_def)

lemma no_columns_iff:
  "concat (map (\<lambda>t. map (\<lambda>col. JoinTableInfo.Name t @ ''.'' @ col) (SelectedColumns t)) ts) = []
   \<longleftrightarrow> (\<forall>t \<in> set ts. SelectedColumns t = [])"
  by (induction ts) auto

text \<open>
  C6. BuildJoinQuery returns an error exactly when fewer than two tables are given, or a
  table after the first has an empty join condition, or no column is selected in any
  table. When it succeeds the query is the one the specification describes: the selected
  columns qualified as table.column, in table order, FROM the first table, one join
  clause per further table in the order given with INNER JOIN where no join type is
  given, and the filter clause, when not empty, appended verbatim after WHERE.
\<close>

theorem BuildJoinQuery_correct:
  "(isl (BuildJoinQuery params) \<longleftrightarrow> join_invalid params) \<and>
   (\<not> join_invalid params \<longrightarrow> BuildJoinQuery params = Inr (join_query_spec params))"
proof (cases "length (Tables params) < 2")
  case True
  then show ?thesis by (simp add: BuildJoinQuery_def join_invalid_def)
next
  case two: False
  then have hd0: "Tables params ! 0 = hd (Tables params)"
    by (cases "Tables params") auto
  have tl1: "drop (Suc 0) (Tables params) = tl (Tables params)"
    by (simp add: drop_Suc)
  show ?thesis
  proof (cases "\<forall>t \<in> set (Tables params). SelectedColumns t = []")
    case True
    then have "collect_columns (Tables params) [] = []"
      by (simp add: collect_columns_eq no_columns_iff)
    with two True show ?thesis
      by (simp add: BuildJoinQuery_def join_invalid_def)
  next
    case cols: False
    then have ne: "collect_columns (Tables params) [] \<noteq> []"
      by (simp add: collect_columns_eq no_columns_iff)
    have qc: "collect_columns (Tables params) [] = qualified_columns params"
      by (simp add: collect_columns_eq qualified_columns_def)
    show ?thesis
    proof (cases "\<exists>t \<in> set (tl (Tables params)). JoinCondition t = []")
      case True
      then obtain err where
        "add_joins (tl (Tables params))
           (''SELECT '' @ Join (collect_columns (Tables params) []) '', '' @ '' FROM '' @
            JoinTableInfo.Name (hd (Tables params))) = Inl err"
        using add_joins_error by blast
      with two ne True show ?thesis
        by (simp add: BuildJoinQuery_def join_invalid_def Let_def hd0 tl1)
    next
      case False
      then have ok: "\<forall>t \<in> set (tl (Tables params)). JoinCondition t \<noteq> []" by blast
      have inv: "\<not> join_invalid params"
        using two cols False by (simp add: join_invalid_def)
      have "BuildJoinQuery params = Inr (join_query_spec params)"
        using two ne
        by (simp add: BuildJoinQuery_def Let_def hd0 tl1 add_joins_ok [OF ok]
            join_query_spec_def qc)
      with inv show ?thesis by simp
    qed
  qed
qed

theorem BuildJoinQuery_correct_witness:
  "\<not> join_invalid
      \<lparr>Tables =
         [\<lparr>Name = ''orders'', JoinType = [], JoinCondition = [], SelectedColumns = [''id'', ''total'']\<rparr>,
          \<lparr>Name = ''users'', JoinType = ''LEFT JOIN'', JoinCondition = ''orders.uid = users.id'',
            SelectedColumns = [''name'']\<rparr>,
          \<lparr>Name = ''items'', JoinType = [], JoinCondition = ''items.oid = orders.id'',
            SelectedColumns = []\<rparr>],
       WhereClause = ''total > 10''\<rparr> \<and>
   BuildJoinQuery
      \<lparr>Tables =
         [\<lparr>Name = ''orders'', JoinType = [], JoinCondition = [], SelectedColumns = [''id'', ''total'']\<rparr>,
          \<lparr>Name = ''users'', JoinType = ''LEFT JOIN'', JoinCondition = ''orders.uid = users.id'',
            SelectedColumns = [''name'']\<rparr>,
          \<lparr>Name = ''items'', JoinType = [], JoinCondition = ''items.oid = orders.id'',
            SelectedColumns = []\<rparr>],
       WhereClause = ''total > 10''\<rparr> =
   Inr (''SELECT orders.id, orders.total, users.name FROM orders'' @
        '' LEFT JOIN users ON orders.uid = users.id'' @
        '' INNER JOIN items ON items.oid = orders.id'' @
        '' WHERE total > 10'')"
  using BuildJoinQuery_correct
    [of "\<lparr>Tables =
         [\<lparr>Name = ''orders'', JoinType = [], JoinCondition = [], SelectedColumns = [''id'', ''total'']\<rparr>,
          \<lparr>Name = ''users'', JoinType = ''LEFT JOIN'', JoinCondition = ''orders.uid = users.id'',
            SelectedColumns = [''name'']\<rparr>,
          \<lparr>Name = ''items'', JoinType = [], JoinCondition = ''items.oid = orders.id'',
            SelectedColumns = []\<rparr>],
       WhereClause = ''total > 10''\<rparr>"]
  by (simp add: join_invalid_def join_query_spec_def qualified_columns_def join_clause_def)

section \<open>The standard library's text handling\<close>

text \<open>
  The flat-file service reads and writes through Go's \<open>encoding/csv\<close>, configured
  in the source with \<open>Comma = delim\<close>, \<open>LazyQuotes = true\<close> and
  \<open>TrimLeadingSpace = true\<close> on the reader and \<open>Comma = delim\<close> on the writer
  (\<open>UseCRLF\<close>, \<open>Comment\<close>, \<open>FieldsPerRecord\<close> and \<open>ReuseRecord\<close> keep their zero
  values). This section transcribes the parts of \<open>unicode/utf8\<close>, \<open>unicode\<close> and
  \<open>encoding/csv\<close> that those calls run, under that configuration. Reads and writes
  of an opened file are taken not to fail, so the only errors of the reader are
  \<open>io.EOF\<close>, \<open>errInvalidDelim\<close> and \<open>ErrFieldCount\<close>.
\<close>

subsection \<open>unicode/utf8 and unicode\<close>

type_synonym rune = nat

definition RuneError :: rune where
  "RuneError = 0xFFFD"

definition byte :: "char \<Rightarrow> nat" where
  "byte c = of_char c"

definition cont :: "char \<Rightarrow> bool" where
  "cont c = (0x80 \<le> byte c \<and> byte c \<le> 0xBF)"

definition decode2 :: "nat \<Rightarrow> string \<Rightarrow> (rune \<times> nat) option" where
  "decode2 b0 s =
     (case s of
        c1 # _ \<Rightarrow>
          if cont c1 then Some ((b0 mod 0x20) * 0x40 + byte c1 mod 0x40, 2) else None
      | _ \<Rightarrow> None)"

definition decode3 :: "nat \<Rightarrow> string \<Rightarrow> (rune \<times> nat) option" where
  "decode3 b0 s =
     (case s of
        c1 # c2 # _ \<Rightarrow>
          if (if b0 = 0xE0 then 0xA0 else 0x80) \<le> byte c1 \<and>
             byte c1 \<le> (if b0 = 0xED then 0x9F else 0xBF) \<and> cont c2
          then Some ((b0 mod 0x10) * 0x1000 + (byte c1 mod 0x40) * 0x40 + byte c2 mod 0x40, 3)
          else None
      | _ \<Rightarrow> None)"

definition decode4 :: "nat \<Rightarrow> string \<Rightarrow> (rune \<times> nat) option" where
  "decode4 b0 s =
     (case s of
        c1 # c2 # c3 # _ \<Rightarrow>
          if (if b0 = 0xF0 then 0x90 else 0x80) \<le> byte c1 \<and>
             byte c1 \<le> (if b0 = 0xF4 then 0x8F else 0xBF) \<and> cont c2 \<and> cont c3
          then Some ((b0 mod 0x08) * 0x40000 + (byte c1 mod 0x40) * 0x1000 +
                     (byte c2 mod 0x40) * 0x40 + byte c3 mod 0x40, 4)
          else None
      | _ \<Rightarrow> None)"

definition decode_multi :: "nat \<Rightarrow> string \<Rightarrow> (rune \<times> nat) option" where
  "decode_multi b0 s =
     (if b0 < 0xC2 \<or> 0xF4 < b0 then None
      else if b0 < 0xE0 then decode2 b0 s
      else if b0 < 0xF0 then decode3 b0 s
      else decode4 b0 s)"

fun DecodeRuneInString :: "string \<Rightarrow> rune \<times> nat" where
  "DecodeRuneInString [] = (RuneError, 0)"
| "DecodeRuneInString (c0 # s) =
     (if byte c0 < 0x80 then (byte c0, 1)
      else case decode_multi (byte c0) s of
             None \<Rightarrow> (RuneError, 1)
           | Some rn \<Rightarrow> rn)"

lemma decode_multi_size: "decode_multi b0 s = Some (r, n) \<Longrightarrow> 1 \<le> n"
  by (auto simp: decode_multi_def decode2_def decode3_def decode4_def
      split: if_splits list.splits)

lemma DecodeRuneInString_size: "s \<noteq> [] \<Longrightarrow> 1 \<le> snd (DecodeRuneInString s)"
  by (cases s) (auto split: option.splits dest: decode_multi_size)

function runes :: "string \<Rightarrow> rune list" where
  "runes s = (if s = [] then [] else fst (DecodeRuneInString s) # runes (drop (snd (DecodeRuneInString s)) s))"
  by pat_completeness auto
termination
proof (relation "measure length")
  fix s :: string
  assume "s \<noteq> []"
  then show "(drop (snd (DecodeRuneInString s)) s, s) \<in> measure length"
    using DecodeRuneInString_size [of s] by (cases s) auto
qed simp

declare runes.simps [simp del]

definition ValidRune :: "rune \<Rightarrow> bool" where
  "ValidRune r = (r < 0xD800 \<or> (0xDFFF < r \<and> r \<le> 0x10FFFF))"

definition EncodeRune :: "rune \<Rightarrow> string" where
  "EncodeRune r =
     (if r < 0x80 then [char_of r]
      else if r < 0x800 then [char_of (0xC0 + r div 0x40), char_of (0x80 + r mod 0x40)]
      else if \<not> ValidRune r then [char_of (0xEF::nat), char_of (0xBF::nat), char_of (0xBD::nat)]
      else if r < 0x10000 then
        [char_of (0xE0 + r div 0x1000), char_of (0x80 + (r div 0x40) mod 0x40),
         char_of (0x80 + r mod 0x40)]
      else
        [char_of (0xF0 + r div 0x40000), char_of (0x80 + (r div 0x1000) mod 0x40),
         char_of (0x80 + (r div 0x40) mod 0x40), char_of (0x80 + r mod 0x40)])"

definition IsSpace :: "rune \<Rightarrow> bool" where
  "IsSpace r =
     (r = 0x09 \<or> r = 0x0A \<or> r = 0x0B \<or> r = 0x0C \<or> r = 0x0D \<or> r = 0x20 \<or> r = 0x85 \<or>
      r = 0xA0 \<or> r = 0x1680 \<or> (0x2000 \<le> r \<and> r \<le> 0x200A) \<or> r = 0x2028 \<or> r = 0x2029 \<or>
      r = 0x202F \<or> r = 0x205F \<or> r = 0x3000)"

definition NL :: char where "NL = CHR 0x0A"
definition CR :: char where "CR = CHR 0x0D"
definition DQ :: char where "DQ = CHR 0x22"

fun Index :: "string \<Rightarrow> string \<Rightarrow> nat option" where
  "Index [] sep = (if sep = [] then Some 0 else None)"
| "Index (c # s) sep =
     (if take (length sep) (c # s) = sep then Some 0 else map_option Suc (Index s sep))"

subsection \<open>encoding/csv: Writer\<close>

datatype csv_error = io_EOF | errInvalidDelim | ErrFieldCount

definition validDelim :: "rune \<Rightarrow> bool" where
  "validDelim r = (r \<noteq> 0 \<and> r \<noteq> 0x22 \<and> r \<noteq> 0x0D \<and> r \<noteq> 0x0A \<and> ValidRune r \<and> r \<noteq> RuneError)"

definition fieldNeedsQuotes :: "rune \<Rightarrow> string \<Rightarrow> bool" where
  "fieldNeedsQuotes comma field =
     (if field = [] then False
      else if field = [CHR 0x5C, CHR ''.''] then True
      else if (if comma < 0x80
               then list_ex (\<lambda>c. c = NL \<or> c = CR \<or> c = DQ \<or> byte c = comma) field
               else Index field (EncodeRune comma) \<noteq> None \<or>
                    list_ex (\<lambda>c. c = DQ \<or> c = CR \<or> c = NL) field)
        then True
      else IsSpace (fst (DecodeRuneInString field)))"

fun write_quoted :: "string \<Rightarrow> string" where
  "write_quoted [] = []"
| "write_quoted (c # field) = (if c = DQ then [DQ, DQ] else [c]) @ write_quoted field"

fun write_fields :: "rune \<Rightarrow> nat \<Rightarrow> string list \<Rightarrow> string" where
  "write_fields comma n [] = []"
| "write_fields comma n (field # record) =
     (if n > 0 then EncodeRune comma else []) @
     (if \<not> fieldNeedsQuotes comma field then field else [DQ] @ write_quoted field @ [DQ]) @
     write_fields comma (n + 1) record"

definition Writer_Write :: "rune \<Rightarrow> string list \<Rightarrow> csv_error + string" where
  "Writer_Write comma record =
     (if \<not> validDelim comma then Inl errInvalidDelim
      else Inr (write_fields comma 0 record @ [NL]))"

subsection \<open>encoding/csv: Reader\<close>

definition lengthNL :: "string \<Rightarrow> nat" where
  "lengthNL b = (if b \<noteq> [] \<and> last b = NL then 1 else 0)"

definition ReadSlice :: "string \<Rightarrow> string \<times> bool \<times> string" where
  "ReadSlice input =
     (case dropWhile (\<lambda>c. c \<noteq> NL) input of
        [] \<Rightarrow> (input, True, [])
      | _ # rest \<Rightarrow> (takeWhile (\<lambda>c. c \<noteq> NL) input @ [NL], False, rest))"

definition dropTrailingCR :: "string \<Rightarrow> string" where
  "dropTrailingCR line = (if line \<noteq> [] \<and> last line = CR then butlast line else line)"

definition normalizeCRLF :: "string \<Rightarrow> string" where
  "normalizeCRLF line =
     (let n = length line
      in if n \<ge> 2 \<and> line ! (n - 2) = CR \<and> line ! (n - 1) = NL
         then take (n - 2) line @ [NL] else line)"

definition readLine :: "string \<Rightarrow> string \<times> bool \<times> string" where
  "readLine input =
     (case ReadSlice input of
        (line, err, rest) \<Rightarrow>
          if line \<noteq> [] \<and> err
          then (normalizeCRLF (dropTrailingCR line), False, rest)
          else (normalizeCRLF line, err, rest))"

function trimLeadingSpace :: "string \<Rightarrow> string" where
  "trimLeadingSpace line =
     (if line = [] then []
      else if \<not> IsSpace (fst (DecodeRuneInString line)) then line
      else trimLeadingSpace (drop (snd (DecodeRuneInString line)) line))"
  by pat_completeness auto
termination
proof (relation "measure length")
  fix line :: string
  assume "line \<noteq> []"
  then show "(drop (snd (DecodeRuneInString line)) line, line) \<in> measure length"
    using DecodeRuneInString_size [of line] by (cases line) auto
qed simp

declare trimLeadingSpace.simps [simp del]

lemma length_trimLeadingSpace: "length (trimLeadingSpace line) \<le> length line"
proof (induction line rule: trimLeadingSpace.induct)
  case (1 line)
  show ?case
  proof (cases "line \<noteq> [] \<and> IsSpace (fst (DecodeRuneInString line))")
    case True
    then have "length (trimLeadingSpace (drop (snd (DecodeRuneInString line)) line)) \<le>
        length (drop (snd (DecodeRuneInString line)) line)"
      using "1.IH" by simp
    with True show ?thesis
      by (subst trimLeadingSpace.simps) simp
  next
    case False
    then show ?thesis by (subst trimLeadingSpace.simps) auto
  qed
qed

lemma length_ReadSlice:
  assumes "ReadSlice input = (line, err, rest)"
  shows "length line + length rest = length input"
proof -
  have "length (takeWhile (\<lambda>c. c \<noteq> NL) input) + length (dropWhile (\<lambda>c. c \<noteq> NL) input) =
      length input"
    using takeWhile_dropWhile_id [of "\<lambda>c. c \<noteq> NL" input] length_append
    by metis
  with assms show ?thesis
    by (cases "dropWhile (\<lambda>c. c \<noteq> NL) input") (auto simp: ReadSlice_def)
qed

lemma length_dropTrailingCR: "length (dropTrailingCR line) \<le> length line"
  by (simp add: dropTrailingCR_def)

lemma length_normalizeCRLF: "length (normalizeCRLF line) \<le> length line"
  by (auto simp: normalizeCRLF_def Let_def)

lemma length_readLine:
  assumes "readLine input = (line, err, rest)"
  shows "length line + length rest \<le> length input"
proof -
  obtain line0 err0 where rs: "ReadSlice input = (line0, err0, rest)"
    using assms by (cases "ReadSlice input") (auto simp: readLine_def split: if_splits)
  have "length line \<le> length line0"
    using assms rs length_normalizeCRLF [of line0]
      length_normalizeCRLF [of "dropTrailingCR line0"] length_dropTrailingCR [of line0]
    by (auto simp: readLine_def split: if_splits)
  with length_ReadSlice [OF rs] show ?thesis by simp
qed

lemma EncodeRune_nonempty: "EncodeRune r \<noteq> []"
  by (simp add: EncodeRune_def)

lemma Index_Nil: "Index [] sep = Some i \<Longrightarrow> sep = []"
  by (simp split: if_splits)

function parseField :: "rune \<Rightarrow> string \<Rightarrow> string \<Rightarrow> string list \<Rightarrow> string list \<times> string"
  and parseQuoted :: "rune \<Rightarrow> string \<Rightarrow> string \<Rightarrow> string \<Rightarrow> string list \<Rightarrow> string list \<times> string"
  where
  "parseField comma line0 input dst =
     (let line = trimLeadingSpace line0
      in if line = [] \<or> hd line \<noteq> DQ then
           (case Index line (EncodeRune comma) of
              Some i \<Rightarrow>
                parseField comma (drop (i + length (EncodeRune comma)) line) input
                  (dst @ [take i line])
            | None \<Rightarrow> (dst @ [take (length line - lengthNL line) line], input))
         else parseQuoted comma (drop 1 line) input [] dst)"
| "parseQuoted comma line input field dst =
     (case Index line [DQ] of
        Some i \<Rightarrow>
          (let rest = drop (i + 1) line; rn = fst (DecodeRuneInString rest)
           in if rn = 0x22 then
                parseQuoted comma (drop 1 rest) input (field @ take i line @ [DQ]) dst
              else if rn = comma then
                parseField comma (drop (length (EncodeRune comma)) rest) input
                  (dst @ [field @ take i line])
              else if lengthNL rest = length rest then (dst @ [field @ take i line], input)
              else parseQuoted comma rest input (field @ take i line @ [DQ]) dst)
      | None \<Rightarrow>
          if line \<noteq> [] then
            (case readLine input of
               (line', err, input') \<Rightarrow> parseQuoted comma line' input' (field @ line) dst)
          else (dst @ [field], input))"
  by pat_completeness auto
termination
proof (relation "measure (\<lambda>x. case x of
          Inl (comma, line, input, dst) \<Rightarrow> 2 * (length line + length input) + 1
        | Inr (comma, line, input, field, dst) \<Rightarrow> 2 * (length line + length input))",
    goal_cases)
  case 1
  show ?case by simp
next
  case (2 comma line0 input dst line i)
  then have "line \<noteq> []"
    using EncodeRune_nonempty [of comma] by (cases line) (auto split: if_splits)
  then have "length (drop (i + length (EncodeRune comma)) line) < length line"
    using EncodeRune_nonempty [of comma] by (cases "EncodeRune comma") auto
  moreover have "length line \<le> length line0"
    using 2 length_trimLeadingSpace [of line0] by simp
  ultimately show ?case by simp
next
  case (3 comma line0 input dst line)
  then have "length (drop 1 line) < length line" by (cases line) auto
  moreover have "length line \<le> length line0"
    using 3 length_trimLeadingSpace [of line0] by simp
  ultimately show ?case by simp
next
  case (4 comma line input field dst line' y err input')
  then have "readLine input = (line', err, input')" by simp
  from length_readLine [OF this] 4 show ?case by (cases line) auto
next
  case (5 comma line input field dst i rest rn)
  then have "line \<noteq> []" by (cases line) (auto split: if_splits)
  then have "length rest < length line" using 5 by (cases line) auto
  then show ?case by simp
next
  case (6 comma line input field dst i rest rn)
  then have "line \<noteq> []" by (cases line) (auto split: if_splits)
  then have "length rest < length line" using 6 by (cases line) auto
  then show ?case by simp
next
  case (7 comma line input field dst i rest rn)
  then have "line \<noteq> []" by (cases line) (auto split: if_splits)
  then have "length rest < length line" using 7 by (cases line) auto
  then show ?case by simp
qed

declare parseField.simps [simp del] parseQuoted.simps [simp del]

lemma ReadSlice_progress:
  assumes "ReadSlice input = (line, err, rest)" and "line \<noteq> []"
  shows "length rest < length input"
  using length_ReadSlice [OF assms(1)] assms(2) by (cases line) auto

lemma ReadSlice_eof:
  assumes "ReadSlice input = (line, False, rest)"
  shows "line \<noteq> []"
  using assms by (cases "dropWhile (\<lambda>c. c \<noteq> NL) input") (auto simp: ReadSlice_def)

lemma readLine_progress:
  assumes "readLine input = (line, False, rest)"
  shows "length rest < length input"
proof -
  obtain line0 err0 where rs: "ReadSlice input = (line0, err0, rest)"
    using assms by (cases "ReadSlice input") (auto simp: readLine_def split: if_splits)
  have "line0 \<noteq> []"
  proof (cases err0)
    case True
    with assms rs show ?thesis by (auto simp: readLine_def split: if_splits)
  next
    case False
    with rs have "ReadSlice input = (line0, False, rest)" by simp
    then show ?thesis by (rule ReadSlice_eof)
  qed
  with rs show ?thesis by (rule ReadSlice_progress)
qed

text \<open>
  The loop at the head of \<open>readRecord\<close> that reads lines until one is not empty
  (\<open>Comment\<close> is 0, so no line is a comment).
\<close>

function nextLine :: "string \<Rightarrow> string \<times> bool \<times> string" where
  "nextLine input =
     (case readLine input of
        (line, errRead, rest) \<Rightarrow>
          if \<not> errRead \<and> length line = lengthNL line then nextLine rest
          else (line, errRead, rest))"
  by pat_completeness auto
termination
proof (relation "measure length", goal_cases)
  case 1
  show ?case by simp
next
  case (2 input x y errRead rest)
  then have "readLine input = (x, False, rest)" by simp
  from readLine_progress [OF this] show ?case by simp
qed

declare nextLine.simps [simp del]

lemma nextLine_progress:
  "nextLine input = (line, False, rest) \<Longrightarrow> length rest < length input"
proof (induction input rule: nextLine.induct)
  case (1 input)
  obtain l e r where rl: "readLine input = (l, e, r)"
    by (cases "readLine input") auto
  show ?case
  proof (cases "\<not> e \<and> length l = lengthNL l")
    case True
    then have nl: "nextLine input = nextLine r"
      using rl by (subst nextLine.simps) simp
    from rl True have "readLine input = (l, False, r)" by simp
    then have "length r < length input" by (rule readLine_progress)
    moreover have "length rest < length r"
      using "1.IH" rl True "1.prems" nl by auto
    ultimately show ?thesis by simp
  next
    case False
    then have "nextLine input = (l, e, r)"
      using rl by (subst nextLine.simps) auto
    with "1.prems" have "readLine input = (line, False, rest)"
      using rl by simp
    then show ?thesis by (rule readLine_progress)
  qed
qed

lemma parse_input_le:
  "length (snd (parseField comma line input dst)) \<le> length input"
  "length (snd (parseQuoted comma line input field dst)) \<le> length input"
proof (induction comma line input dst and comma line input field dst
    rule: parseField_parseQuoted.induct)
  case (1 comma line0 input dst)
  show ?case
    using "1.IH"
    by (subst parseField.simps) (auto simp: Let_def split: option.splits)
next
  case (2 comma line input field dst)
  show ?case
  proof (cases "Index line [DQ]")
    case (Some i)
    then show ?thesis
      using "2.IH"
      by (subst parseQuoted.simps) (auto simp: Let_def)
  next
    case None
    show ?thesis
    proof (cases "line = []")
      case True
      with None show ?thesis by (subst parseQuoted.simps) simp
    next
      case False
      obtain l e r where rl: "readLine input = (l, e, r)"
        by (cases "readLine input") auto
      have "length (snd (parseQuoted comma l r (field @ line) dst)) \<le> length r"
        using "2.IH" None False rl by auto
      moreover have "length r \<le> length input"
        using length_readLine [OF rl] by simp
      ultimately show ?thesis
        using None False rl by (subst parseQuoted.simps) simp
    qed
  qed
qed

text \<open>
  \<open>Reader.Read\<close>: the record and the error it returns, with the reader's new
  \<open>FieldsPerRecord\<close> and the input left. On \<open>ErrFieldCount\<close> the record is returned
  with the error, as in Go.
\<close>

definition Read :: "rune \<Rightarrow> nat \<Rightarrow> string \<Rightarrow> (string list \<times> csv_error option) \<times> nat \<times> string" where
  "Read comma FieldsPerRecord input =
     (if \<not> validDelim comma then (([], Some errInvalidDelim), FieldsPerRecord, input)
      else
        case nextLine input of
          (line, errRead, rest) \<Rightarrow>
            if errRead then (([], Some io_EOF), FieldsPerRecord, rest)
            else
              case parseField comma line rest [] of
                (dst, rest') \<Rightarrow>
                  if FieldsPerRecord > 0 then
                    ((dst, if length dst \<noteq> FieldsPerRecord then Some ErrFieldCount else None),
                     FieldsPerRecord, rest')
                  else ((dst, None), length dst, rest'))"

lemma Read_progress:
  assumes "Read comma fpr input = ((record, err), fpr', rest)"
    and "err \<noteq> Some io_EOF" and "err \<noteq> Some errInvalidDelim"
  shows "length rest < length input"
proof -
  from assms have valid: "validDelim comma"
    by (auto simp: Read_def split: if_splits)
  obtain line e r where nl: "nextLine input = (line, e, r)"
    by (cases "nextLine input") auto
  from assms valid nl have "\<not> e"
    by (auto simp: Read_def split: if_splits)
  with nl have "nextLine input = (line, False, r)" by simp
  then have "length r < length input" by (rule nextLine_progress)
  moreover have "rest = snd (parseField comma line r [])"
    using assms valid nl \<open>\<not> e\<close>
    by (auto simp: Read_def split: if_splits prod.splits)
  ultimately show ?thesis
    using parse_input_le(1) [of comma line r "[]"] by simp
qed

text \<open>
  The results of the successive calls of \<open>reader.Read()\<close> that a loop makes until it
  gets \<open>io.EOF\<close>. (With an invalid delimiter every call fails; the services read
  the header first and stop there.)
\<close>

function readAll :: "rune \<Rightarrow> nat \<Rightarrow> string \<Rightarrow> (string list \<times> csv_error option) list" where
  "readAll comma FieldsPerRecord input =
     (case Read comma FieldsPerRecord input of
        ((record, err), FieldsPerRecord', rest) \<Rightarrow>
          if err = Some io_EOF \<or> err = Some errInvalidDelim then []
          else (record, err) # readAll comma FieldsPerRecord' rest)"
  by pat_completeness auto
termination
proof (relation "measure (\<lambda>(comma, fpr, input). length input)", goal_cases)
  case 1
  show ?case by simp
next
  case (2 comma fpr input x rest' rec err fpr' rest)
  then have "Read comma fpr input = ((rec, err), fpr', rest)" by simp
  from Read_progress [OF this] 2 show ?case by (cases rest') auto
qed

declare readAll.simps [simp del]

section \<open>Errors, progress events and the environment\<close>

text \<open>
  A Go \<open>error\<close> is a value of the datatype \<open>error\<close>; \<open>Error\<close> is its
  \<open>err.Error()\<close>. \<open>errorString\<close> stands for the errors of the operating system and
  of the database driver, known by their text only, and for \<open>fmt.Errorf\<close> without
  \<open>%w\<close>; \<open>wrapError msg err\<close> is \<open>fmt.Errorf(msg + ": %w", err)\<close>; \<open>Canceled\<close> is
  \<open>ctx.Err()\<close> of a cancelled context.
\<close>

datatype error =
    errorString string
  | wrapError string error
  | Canceled
  | csvError csv_error

fun Error :: "error \<Rightarrow> string" where
  "Error (errorString s) = s"
| "Error (wrapError msg err) = msg @ '': '' @ Error err"
| "Error Canceled = ''context canceled''"
| "Error (csvError io_EOF) = ''EOF''"
| "Error (csvError errInvalidDelim) = ''csv: invalid field or comment delimiter''"
| "Error (csvError ErrFieldCount) = ''wrong number of fields''"

text \<open>A call that panics does not return; \<open>Panics\<close> carries the runtime's message.\<close>

datatype 'a go = Panics string | Returns 'a

record ProgressUpdate =
  Status :: string
  Message :: string
  Count :: int
  Completed :: bool

record IngestionResult =
  TotalRecords :: int

record Config =
  BatchSize :: int
  ProgressReportSize :: int
  MaxPreviewRows :: int

text \<open>
  The context: \<open>ctx site k\<close> tells whether the \<open>select\<close> at the named place of the
  source, when it runs for the \<open>k\<close>-th time, takes the branch \<open>case <-ctx.Done()\<close>.
  \<open>background\<close> is a context that is never cancelled.
\<close>

type_synonym ctx = "string \<Rightarrow> nat \<Rightarrow> bool"

definition background :: ctx where
  "background = (\<lambda>site k. False)"

text \<open>
  The file system: \<open>Open path\<close> is the outcome of \<open>os.Open\<close> with the bytes of the
  file when it succeeds, \<open>MkdirAll_Dir path\<close> that of
  \<open>os.MkdirAll(filepath.Dir(path), 0755)\<close>, and \<open>Create path\<close> that of \<open>os.Create\<close>.
\<close>

record os =
  Open :: "string \<Rightarrow> error + string"
  MkdirAll_Dir :: "string \<Rightarrow> error option"
  Create :: "string \<Rightarrow> error option"

text \<open>\<open>fmt.Sprintf("%d", n)\<close>.\<close>

fun digits :: "nat \<Rightarrow> string" where
  "digits n = (if n < 10 then [''0123456789'' ! n] else digits (n div 10) @ [''0123456789'' ! (n mod 10)])"

declare digits.simps [simp del]

definition Itoa :: "int \<Rightarrow> string" where
  "Itoa n = (if n < 0 then CHR ''-'' # digits (nat (- n)) else digits (nat n))"

text \<open>
  \<open>make([]T, 0, cap)\<close>: the runtime's \<open>makeslice\<close> panics with
  \<open>makeslice: cap out of range\<close> when \<open>cap\<close> is negative or when \<open>cap\<close> elements
  of \<open>T\<close>, of \<open>elemSize\<close> bytes each, take more than \<open>maxAlloc\<close> bytes, which is
  \<open>1 << 48\<close> on the 64-bit platforms. A slice of \<open>[]interface{}\<close> has elements of 24
  bytes (pointer, length, capacity), a slice of maps has elements of 8 bytes.
\<close>

definition maxAlloc :: int where
  "maxAlloc = 2 ^ 48"

definition makeslice_panics :: "int \<Rightarrow> int \<Rightarrow> bool" where
  "makeslice_panics elemSize cap \<longleftrightarrow> cap < 0 \<or> elemSize * cap > maxAlloc"

section \<open>The flat-file service (flatfile.go)\<close>

subsection \<open>The delimiter\<close>

text \<open>
  The block that DiscoverSchema, PreviewData, ReadData and WriteData each start with:
  \<^verbatim>\<open>
  var delim rune = ','
  if delimiter != "" {
      delims := []rune(delimiter)
      if len(delims) > 0 { delim = delims[0] }
  }
  \<close>
\<close>

definition delim_of :: "string \<Rightarrow> rune" where
  "delim_of delimiter =
     (if delimiter \<noteq> [] then
        (let delims = runes delimiter
         in if length delims > 0 then delims ! 0 else 0x2C)
      else 0x2C)"

subsection \<open>convertValue\<close>

text \<open>
  The values that convertValue puts into an \<open>interface{}\<close>: nil, an int64, the int of
  the literal \<open>0\<close>, a float64, a bool, a time.Time, a string. The float64 zero and the
  zero time are \<open>zeroFloat\<close> and \<open>zeroTime\<close>.
\<close>

datatype ('f, 't) val =
    VNil | VInt64 int | VInt int | VFloat64 'f | VBool bool | VTime 't | VString string

record ('f, 't) zeros =
  zeroFloat :: 'f
  zeroTime :: 't

definition HasPrefix :: "string \<Rightarrow> string \<Rightarrow> bool" where
  "HasPrefix s pre = (length s \<ge> length pre \<and> take (length pre) s = pre)"

definition HasSuffix :: "string \<Rightarrow> string \<Rightarrow> bool" where
  "HasSuffix s suf = (length s \<ge> length suf \<and> drop (length s - length suf) s = suf)"

fun first_format :: "('f, 't) stdlib \<Rightarrow> string list \<Rightarrow> string \<Rightarrow> 't option" where
  "first_format L [] v = None"
| "first_format L (format # formats) v =
     (case time_Parse L format v of Some t \<Rightarrow> Some t | None \<Rightarrow> first_format L formats v)"

function convertValue ::
  "('f, 't) stdlib \<Rightarrow> ('f, 't) zeros \<Rightarrow> string \<Rightarrow> string \<Rightarrow> ('f, 't) val" where
  "convertValue L Z v dataType =
     (if HasPrefix dataType ''Nullable('' \<and> HasSuffix dataType '')'' then
        (if v = [] then VNil
         else convertValue L Z v (drop 9 (take (length dataType - 1) dataType)))
      else if dataType \<in> set [''Int8'', ''Int16'', ''Int32'', ''Int64'',
                               ''UInt8'', ''UInt16'', ''UInt32'', ''UInt64''] then
        (case ParseInt L v of Some i \<Rightarrow> VInt64 i | None \<Rightarrow> VInt 0)
      else if dataType \<in> set [''Float32'', ''Float64''] then
        (case ParseFloat L v of Some f \<Rightarrow> VFloat64 f | None \<Rightarrow> VFloat64 (zeroFloat Z))
      else if dataType = ''Bool'' then
        (case ParseBool L v of Some b \<Rightarrow> VBool b | None \<Rightarrow> VBool False)
      else if dataType \<in> set [''Date'', ''DateTime''] then
        (case first_format L dateFormats v of Some t \<Rightarrow> VTime t | None \<Rightarrow> VTime (zeroTime Z))
      else VString v)"
  by pat_completeness auto
termination
proof (relation "measure (\<lambda>(L, Z, v, dataType). length dataType)", goal_cases)
  case 1
  show ?case by simp
next
  case (2 L Z v dataType)
  then have "length dataType \<ge> 9" by (simp add: HasPrefix_def)
  then show ?case by simp
qed

declare convertValue.simps [simp del]

subsection \<open>Reading: DiscoverSchema, PreviewData, ReadData\<close>

text \<open>The loop \<open>for i, name := range header { colNameToIndex[name] = i }\<close>.\<close>

fun index_names :: "string list \<Rightarrow> nat \<Rightarrow> (string \<rightharpoonup> nat) \<Rightarrow> (string \<rightharpoonup> nat)" where
  "index_names [] i colNameToIndex = colNameToIndex"
| "index_names (name # header) i colNameToIndex =
     index_names header (i + 1) (colNameToIndex(name \<mapsto> i))"







text \<open>
  A row of ReadData: one value per requested column, nil for a column that the header
  does not have.
\<close>

definition read_row ::
  "('f, 't) stdlib \<Rightarrow> ('f, 't) zeros \<Rightarrow> (string \<rightharpoonup> nat) \<Rightarrow> string list \<Rightarrow> Column list \<Rightarrow>
   ('f, 't) val list" where
  "read_row L Z colNameToIndex rec columns =
     map (\<lambda>col. case colNameToIndex (Column.Name col) of
                   None \<Rightarrow> VNil
                 | Some idx \<Rightarrow>
                     if idx \<ge> length rec then VNil
                     else convertValue L Z (rec ! idx) (Type col))
         columns"

text \<open>
  The goroutine of ReadData: the rows it sends on the channel \<open>out\<close>, in order, before
  it closes the channel. \<open>k\<close> counts the iterations of its loop.
\<close>

fun read_rows ::
  "('f, 't) stdlib \<Rightarrow> ('f, 't) zeros \<Rightarrow> ctx \<Rightarrow> nat \<Rightarrow> (string \<rightharpoonup> nat) \<Rightarrow> Column list \<Rightarrow>
   nat \<Rightarrow> (string list \<times> csv_error option) list \<Rightarrow> ('f, 't) val list list" where
  "read_rows L Z ctx n colNameToIndex columns k [] = []"
| "read_rows L Z ctx n colNameToIndex columns k ((rec, err) # reads) =
     (if ctx ''ReadData.loop'' k then []
      else if err \<noteq> None then read_rows L Z ctx n colNameToIndex columns (k + 1) reads
      else if length rec \<noteq> n then read_rows L Z ctx n colNameToIndex columns (k + 1) reads
      else if ctx ''ReadData.send'' k then []
      else read_row L Z colNameToIndex rec columns #
           read_rows L Z ctx n colNameToIndex columns (k + 1) reads)"

definition ReadData ::
  "('f, 't) stdlib \<Rightarrow> ('f, 't) zeros \<Rightarrow> os \<Rightarrow> ctx \<Rightarrow> string \<Rightarrow> string \<Rightarrow> Column list \<Rightarrow>
   error + ('f, 't) val list list" where
  "ReadData L Z fs ctx filePath delimiter columns =
     (case Open fs filePath of
        Inl err \<Rightarrow> Inl (wrapError ''failed to open file'' err)
      | Inr file \<Rightarrow>
          let delim = delim_of delimiter
          in case Read delim 0 file of
               ((header, Some err), fpr, rest) \<Rightarrow>
                 Inl (wrapError ''failed to read header'' (csvError err))
             | ((header, None), fpr, rest) \<Rightarrow>
                 Inr (read_rows L Z ctx (length header) (index_names header 0 Map.empty)
                        columns 0 (readAll delim fpr rest)))"

subsection \<open>Writing: WriteData\<close>

text \<open>
  A row of WriteData is a \<open>map[string]interface{}\<close>; its values come from the database
  driver and are of the type \<open>'v\<close>, and \<open>Sprint\<close> is \<open>fmt.Sprintf("%v", value)\<close> on
  them. \<open>write_record\<close> is the loop that builds \<open>record\<close> from a row.
\<close>

definition write_record :: "('v \<Rightarrow> string) \<Rightarrow> Column list \<Rightarrow> (string \<rightharpoonup> 'v) \<Rightarrow> string list" where
  "write_record Sprint columns row =
     map (\<lambda>col. case row (Column.Name col) of None \<Rightarrow> [] | Some v \<Rightarrow> Sprint v) columns"

text \<open>
  The loop \<open>for row := range data\<close> of WriteData with its variables \<open>totalRows\<close> and
  \<open>lastReportedCount\<close>; \<open>written\<close> collects the bytes handed to the csv writer and
  \<open>sent\<close> the updates sent on \<open>progressCh\<close>. The result is what WriteData returns
  from inside or after the loop. (The periodic and the final \<open>Flush\<close> do not fail
  here, so they leave no trace.)
\<close>

fun write_rows ::
  "('v \<Rightarrow> string) \<Rightarrow> ctx \<Rightarrow> int \<Rightarrow> rune \<Rightarrow> Column list \<Rightarrow> (string \<rightharpoonup> 'v) list \<Rightarrow>
   int \<Rightarrow> int \<Rightarrow> string \<Rightarrow> ProgressUpdate list \<Rightarrow>
   int \<times> error option \<times> string \<times> ProgressUpdate list" where
  "write_rows Sprint ctx progressReportSize delim columns [] totalRows lastReportedCount
     written sent = (totalRows, None, written, sent)"
| "write_rows Sprint ctx progressReportSize delim columns (row # data) totalRows
     lastReportedCount written sent =
     (if ctx ''WriteData.loop'' (nat totalRows) then (totalRows, Some Canceled, written, sent)
      else
        case Writer_Write delim (write_record Sprint columns row) of
          Inl err \<Rightarrow>
            (totalRows, Some (wrapError ''failed to write record'' (csvError err)), written, sent)
        | Inr bytes \<Rightarrow>
            if totalRows + 1 - lastReportedCount \<ge> progressReportSize then
              (if ctx ''WriteData.progress'' (nat (totalRows + 1))
               then (totalRows + 1, Some Canceled, written @ bytes, sent)
               else write_rows Sprint ctx progressReportSize delim columns data
                      (totalRows + 1) (totalRows + 1) (written @ bytes)
                      (sent @ [\<lparr>Status = ''processing'',
                                Message = ''Written '' @ Itoa (totalRows + 1) @ '' rows'',
                                Count = totalRows + 1, Completed = False\<rparr>]))
            else write_rows Sprint ctx progressReportSize delim columns data
                   (totalRows + 1) lastReportedCount (written @ bytes) sent)"

text \<open>
  WriteData returns the count and the error; the model adds the bytes written to the
  file (\<open>None\<close> when the file was not created; after an early return the file holds a
  prefix of them) and the updates sent.
\<close>

definition WriteData ::
  "('v \<Rightarrow> string) \<Rightarrow> os \<Rightarrow> ctx \<Rightarrow> Config \<Rightarrow> string \<Rightarrow> string \<Rightarrow> Column list \<Rightarrow>
   (string \<rightharpoonup> 'v) list \<Rightarrow> int \<times> error option \<times> string option \<times> ProgressUpdate list" where
  "WriteData Sprint fs ctx cfg filePath delimiter columns data =
     (case MkdirAll_Dir fs filePath of
        Some err \<Rightarrow> (0, Some (wrapError ''failed to create directory'' err), None, [])
      | None \<Rightarrow>
          case Create fs filePath of
            Some err \<Rightarrow> (0, Some (wrapError ''failed to create file'' err), None, [])
          | None \<Rightarrow>
              let delim = delim_of delimiter
              in case Writer_Write delim (map Column.Name columns) of
                   Inl err \<Rightarrow>
                     (0, Some (wrapError ''failed to write header'' (csvError err)), Some [], [])
                 | Inr header \<Rightarrow>
                     (case write_rows Sprint ctx (ProgressReportSize cfg) delim columns data
                             0 0 header [] of
                        (totalRows, err, written, sent) \<Rightarrow>
                          (totalRows, err, Some written, sent)))"

section \<open>The ClickHouse service (clickhouse.go)\<close>

text \<open>
  The connection \<open>s.conn\<close> and the server behind it: \<open>connected\<close> says that
  \<open>s.conn\<close> is not nil; \<open>conn_Exec query\<close> is the error of \<open>conn.Exec\<close>;
  \<open>conn_AsyncInsert accepted query batch\<close> is the error of \<open>conn.AsyncInsert\<close> for
  \<open>batch\<close> when the batches \<open>accepted\<close> were inserted before; \<open>conn_Query query\<close> is
  the error of \<open>conn.Query\<close> or the column names of the result, the outcome of
  \<open>rows.Scan\<close> for each row that \<open>rows.Next()\<close> yields, and the final
  \<open>rows.Err()\<close>.
\<close>

record ('row, 'v) driver =
  connected :: bool
  conn_Exec :: "string \<Rightarrow> error option"
  conn_AsyncInsert :: "'row list list \<Rightarrow> string \<Rightarrow> 'row list \<Rightarrow> error option"
  conn_Query :: "string \<Rightarrow> error + (string list \<times> (error + 'v list) list \<times> error option)"

definition CreateTable :: "('row, 'v) driver \<Rightarrow> string \<Rightarrow> Column list \<Rightarrow> error option" where
  "CreateTable dr tableName columns =
     (if \<not> connected dr then Some (errorString ''not connected to ClickHouse'')
      else
        let columnDefs = map (\<lambda>col. Column.Name col @ '' '' @ Type col) columns;
            query = ''CREATE TABLE IF NOT EXISTS '' @ tableName @ '' ('' @
                    Join columnDefs '', '' @ '') ENGINE = MergeTree() ORDER BY tuple()''
        in case conn_Exec dr query of
             Some err \<Rightarrow> Some (wrapError ''failed to create table'' err)
           | None \<Rightarrow> None)"

text \<open>
  The loop \<open>for rowData := range data\<close> of InsertData with its variables
  \<open>totalRows\<close>, \<open>batch\<close> and \<open>lastReportedCount\<close>; \<open>accepted\<close> is the list of the
  batches that AsyncInsert has taken, \<open>sent\<close> the updates sent on \<open>progressCh\<close>. The
  error is \<open>Some\<close> when InsertData returns from inside the loop.
\<close>

fun insert_rows ::
  "Config \<Rightarrow> ('row, 'v) driver \<Rightarrow> ctx \<Rightarrow> string \<Rightarrow> 'row list \<Rightarrow> int \<Rightarrow> 'row list \<Rightarrow> int \<Rightarrow>
   'row list list \<Rightarrow> ProgressUpdate list \<Rightarrow>
   (int \<times> error option) \<times> 'row list \<times> 'row list list \<times> ProgressUpdate list" where
  "insert_rows cfg dr ctx query [] totalRows batch lastReportedCount accepted sent =
     ((totalRows, None), batch, accepted, sent)"
| "insert_rows cfg dr ctx query (rowData # data) totalRows batch lastReportedCount accepted sent =
     (if int (length (batch @ [rowData])) \<ge> BatchSize cfg then
        (case conn_AsyncInsert dr accepted query (batch @ [rowData]) of
           Some err \<Rightarrow>
             ((totalRows, Some (wrapError ''failed to insert batch'' err)),
              batch @ [rowData], accepted, sent)
         | None \<Rightarrow>
             if totalRows + int (length (batch @ [rowData])) - lastReportedCount
                  \<ge> ProgressReportSize cfg then
               (if ctx ''InsertData.progress'' (nat (totalRows + int (length (batch @ [rowData]))))
                then ((totalRows + int (length (batch @ [rowData])), Some Canceled),
                      [], accepted @ [batch @ [rowData]], sent)
                else insert_rows cfg dr ctx query data
                       (totalRows + int (length (batch @ [rowData]))) []
                       (totalRows + int (length (batch @ [rowData])))
                       (accepted @ [batch @ [rowData]])
                       (sent @ [\<lparr>Status = ''processing'',
                                 Message = ''Inserted '' @
                                   Itoa (totalRows + int (length (batch @ [rowData]))) @ '' rows'',
                                 Count = totalRows + int (length (batch @ [rowData])),
                                 Completed = False\<rparr>]))
             else insert_rows cfg dr ctx query data
                    (totalRows + int (length (batch @ [rowData]))) [] lastReportedCount
                    (accepted @ [batch @ [rowData]]) sent)
      else insert_rows cfg dr ctx query data totalRows (batch @ [rowData]) lastReportedCount
             accepted sent)"

text \<open>
  InsertData returns the count and the error; the model adds the batches that the
  server accepted and the updates sent. \<open>make([][]interface{}, 0, s.config.BatchSize)\<close>
  panics when \<open>BatchSize\<close> is negative or too large.
\<close>

definition InsertData ::
  "Config \<Rightarrow> ('row, 'v) driver \<Rightarrow> ctx \<Rightarrow> string \<Rightarrow> Column list \<Rightarrow> 'row list \<Rightarrow>
   ((int \<times> error option) \<times> 'row list list \<times> ProgressUpdate list) go" where
  "InsertData cfg dr ctx tableName columns data =
     (if \<not> connected dr
      then Returns ((0, Some (errorString ''not connected to ClickHouse'')), [], [])
      else
        let columnNames = map Column.Name columns;
            query = ''INSERT INTO '' @ tableName @ '' ('' @ Join columnNames '', '' @ '') VALUES''
        in if makeslice_panics 24 (BatchSize cfg) then Panics ''makeslice: cap out of range''
           else
             case insert_rows cfg dr ctx query data 0 [] 0 [] [] of
               ((totalRows, Some err), batch, accepted, sent) \<Rightarrow>
                 Returns ((totalRows, Some err), accepted, sent)
             | ((totalRows, None), batch, accepted, sent) \<Rightarrow>
                 if length batch > 0 then
                   (case conn_AsyncInsert dr accepted query batch of
                      Some err \<Rightarrow>
                        Returns ((totalRows, Some (wrapError ''failed to insert final batch'' err)),
                                 accepted, sent)
                    | None \<Rightarrow>
                        Returns ((totalRows + int (length batch), None),
                                 accepted @ [batch], sent))
                 else Returns ((totalRows, None), accepted, sent))"

section \<open>The ingestion service and its handler\<close>

record FlatFileParams =
  FilePath :: string
  Delimiter :: string

record IngestionParams =
  SourceType :: string
  TargetType :: string
  TableName :: string
  FlatFileParams :: FlatFileParams
  Columns :: "Column list"
  Query :: string

text \<open>
  What the services run in: the standard library's parsers and \<open>%v\<close> formatting, the
  file system, the request's context, the configuration and the database connection.
\<close>

record ('f, 't, 'v) env =
  lib :: "('f, 't) stdlib"
  zero :: "('f, 't) zeros"
  Sprint :: "'v \<Rightarrow> string"
  fs :: os
  cx :: ctx
  config :: Config
  conn :: "(('f, 't) val list, 'v) driver"

subsection \<open>IngestClickHouseToFlatFile\<close>

text \<open>The loop \<open>for i, colName := range columnNames { rowMap[colName] = rowValues[i] }\<close>.\<close>

fun row_map :: "string list \<Rightarrow> 'v list \<Rightarrow> (string \<rightharpoonup> 'v) \<Rightarrow> (string \<rightharpoonup> 'v)" where
  "row_map (colName # columnNames) (v # rowValues) rowMap =
     row_map columnNames rowValues (rowMap(colName \<mapsto> v))"
| "row_map columnNames rowValues rowMap = rowMap"

text \<open>
  The loop \<open>for rows.Next()\<close> of the goroutine that fetches from ClickHouse, over the
  outcomes of \<open>rows.Scan\<close>; \<open>k\<close> counts its iterations, \<open>rows\<close> collects the rows
  sent on \<open>dataCh\<close> and \<open>sent\<close> the updates sent on \<open>progressCh\<close>. The flag of the
  result says that the goroutine returned from inside the loop. A
  \<open>ProgressReportSize\<close> of 0 makes \<open>totalRows%progressReportSize\<close> panic.
\<close>

fun fetch_rows ::
  "ctx \<Rightarrow> int \<Rightarrow> string list \<Rightarrow> (error + 'v list) list \<Rightarrow> int \<Rightarrow> nat \<Rightarrow>
   (string \<rightharpoonup> 'v) list \<Rightarrow> ProgressUpdate list \<Rightarrow>
   (bool \<times> int \<times> (string \<rightharpoonup> 'v) list \<times> ProgressUpdate list) go" where
  "fetch_rows ctx progressReportSize columnNames [] totalRows k rows sent =
     Returns (False, totalRows, rows, sent)"
| "fetch_rows ctx progressReportSize columnNames (scan # scans) totalRows k rows sent =
     (if ctx ''IngestClickHouseToFlatFile.loop'' k then Returns (True, totalRows, rows, sent)
      else
        case scan of
          Inl err \<Rightarrow> fetch_rows ctx progressReportSize columnNames scans totalRows (k + 1) rows sent
        | Inr rowValues \<Rightarrow>
            if ctx ''IngestClickHouseToFlatFile.send'' k then Returns (True, totalRows, rows, sent)
            else if progressReportSize = 0 then Panics ''integer divide by zero''
            else if (totalRows + 1) mod progressReportSize = 0 then
              (if ctx ''IngestClickHouseToFlatFile.progress'' k
               then Returns (True, totalRows + 1,
                             rows @ [row_map columnNames rowValues Map.empty], sent)
               else fetch_rows ctx progressReportSize columnNames scans (totalRows + 1) (k + 1)
                      (rows @ [row_map columnNames rowValues Map.empty])
                      (sent @ [\<lparr>Status = ''processing'',
                                Message = ''Fetched '' @ Itoa (totalRows + 1) @ '' rows'',
                                Count = totalRows + 1, Completed = False\<rparr>]))
            else fetch_rows ctx progressReportSize columnNames scans (totalRows + 1) (k + 1)
                   (rows @ [row_map columnNames rowValues Map.empty]) sent)"

text \<open>
  The goroutine as a whole: the rows it sends on \<open>dataCh\<close> before it closes the
  channel, and the updates it sends on \<open>progressCh\<close>. It calls \<open>Query\<close> on the
  connection without the nil test of the service's own methods.
\<close>

definition fetch ::
  "('f, 't, 'v) env \<Rightarrow> string \<Rightarrow> ((string \<rightharpoonup> 'v) list \<times> ProgressUpdate list) go" where
  "fetch E query =
     (if \<not> connected (conn E) then Panics ''invalid memory address or nil pointer dereference''
      else
      case conn_Query (conn E) query of
        Inl err \<Rightarrow>
          Returns ([], [\<lparr>Status = ''error'',
                         Message = ''Failed to execute query: '' @ Error err,
                         Count = 0, Completed = True\<rparr>])
      | Inr (columnNames, scans, rowsErr) \<Rightarrow>
          (case fetch_rows (cx E) (ProgressReportSize (config E)) columnNames scans
                  0 0 [] [] of
             Panics msg \<Rightarrow> Panics msg
           | Returns (returned, totalRows, rows, sent) \<Rightarrow>
               if returned then Returns (rows, sent)
               else case rowsErr of
                      Some err \<Rightarrow>
                        Returns (rows, sent @ [\<lparr>Status = ''error'',
                                   Message = ''Error iterating rows: '' @ Error err,
                                   Count = totalRows, Completed = True\<rparr>])
                    | None \<Rightarrow> Returns (rows, sent)))"

text \<open>The query that is run: the one given, or the SELECT built when none is given.\<close>

definition build_query :: "string \<Rightarrow> Column list \<Rightarrow> string \<Rightarrow> string" where
  "build_query tableName columns query =
     (if query = []
      then ''SELECT '' @ Join (map Column.Name columns) '', '' @ '' FROM '' @ tableName
      else query)"

text \<open>
  IngestClickHouseToFlatFile returns the result and the error; the model adds the
  bytes written to the file, the updates that the fetching goroutine sends and those
  that WriteData sends. WriteData is given the rows that the goroutine sends; it takes
  them all when it returns no error, since its loop then ends at the close of
  \<open>dataCh\<close>, which follows everything the goroutine does.
\<close>

definition IngestClickHouseToFlatFile ::
  "('f, 't, 'v) env \<Rightarrow> string \<Rightarrow> Column list \<Rightarrow> FlatFileParams \<Rightarrow> string \<Rightarrow>
   ((IngestionResult \<times> error option) \<times> string option \<times>
    ProgressUpdate list \<times> ProgressUpdate list) go" where
  "IngestClickHouseToFlatFile E tableName columns flatFileParams query =
     (case fetch E (build_query tableName columns query) of
        Panics msg \<Rightarrow> Panics msg
      | Returns (rows, fetched) \<Rightarrow>
          (case WriteData (Sprint E) (fs E) (cx E) (config E)
                     (FilePath flatFileParams) (Delimiter flatFileParams) columns rows of
                (count, Some err, file, wrote) \<Rightarrow>
                  Returns ((\<lparr>TotalRecords = 0\<rparr>, Some err), file, fetched, wrote)
              | (count, None, file, wrote) \<Rightarrow>
                  Returns ((\<lparr>TotalRecords = count\<rparr>, None), file, fetched, wrote)))"

subsection \<open>IngestFlatFileToClickHouse\<close>

text \<open>
  IngestFlatFileToClickHouse returns the result and the error; the model adds the
  batches that the server accepted and the updates sent on \<open>progressCh\<close>.
\<close>

definition IngestFlatFileToClickHouse ::
  "('f, 't, 'v) env \<Rightarrow> FlatFileParams \<Rightarrow> string \<Rightarrow> Column list \<Rightarrow>
   ((IngestionResult \<times> error option) \<times> ('f, 't) val list list list \<times> ProgressUpdate list) go"
  where
  "IngestFlatFileToClickHouse E flatFileParams tableName columns =
     (case CreateTable (conn E) tableName columns of
        Some err \<Rightarrow>
          Returns ((\<lparr>TotalRecords = 0\<rparr>, Some (wrapError ''failed to create table'' err)), [], [])
      | None \<Rightarrow>
          case ReadData (lib E) (zero E) (fs E) (cx E)
                 (FilePath flatFileParams) (Delimiter flatFileParams) columns of
            Inl err \<Rightarrow>
              Returns ((\<lparr>TotalRecords = 0\<rparr>, Some (wrapError ''failed to read data'' err)), [], [])
          | Inr dataCh \<Rightarrow>
              (case InsertData (config E) (conn E) (cx E) tableName columns dataCh of
                 Panics msg \<Rightarrow> Panics msg
               | Returns ((count, Some err), accepted, sent) \<Rightarrow>
                   Returns ((\<lparr>TotalRecords = 0\<rparr>, Some (wrapError ''failed to insert data'' err)),
                            accepted, sent)
               | Returns ((count, None), accepted, sent) \<Rightarrow>
                   Returns ((\<lparr>TotalRecords = count\<rparr>, None), accepted, sent)))"

subsection \<open>StartIngestion\<close>

text \<open>The update that the goroutine of StartIngestion sends last, before \<open>close(progressCh)\<close>.\<close>

definition final_update :: "IngestionResult \<Rightarrow> error option \<Rightarrow> ProgressUpdate" where
  "final_update result err =
     (case err of
        Some e \<Rightarrow> \<lparr>Status = ''error'', Message = Error e, Count = 0, Completed = True\<rparr>
      | None \<Rightarrow> \<lparr>Status = ''success'', Message = ''Ingestion completed successfully'',
                  Count = TotalRecords result, Completed = True\<rparr>)"

text \<open>
  Two goroutines send on \<open>progressCh\<close> during a transfer from ClickHouse to a file:
  the one that fetches and the one that runs WriteData. \<open>sched\<close> chooses whose update
  comes next (\<open>True\<close>: the first list's).
\<close>

fun interleave :: "bool list \<Rightarrow> 'a list \<Rightarrow> 'a list \<Rightarrow> 'a list" where
  "interleave sched [] ys = ys"
| "interleave sched xs [] = xs"
| "interleave [] (x # xs) (y # ys) = x # interleave [] xs (y # ys)"
| "interleave (b # sched) (x # xs) (y # ys) =
     (if b then x # interleave sched xs (y # ys) else y # interleave sched (x # xs) ys)"

text \<open>
  The updates that StartIngestion reads from \<open>progressCh\<close> and writes to the client,
  in order, up to the close of the channel, for a client that stays connected. For a
  transfer from ClickHouse to a file, \<open>sched\<close> is the order in which the two senders
  get to send. When WriteData returns an error it may do so before the fetching
  goroutine is done; \<open>cutoff\<close> is then the number of updates which that goroutine has
  sent when the channel is closed.
\<close>

definition StartIngestion ::
  "('f, 't, 'v) env \<Rightarrow> bool list \<Rightarrow> nat \<Rightarrow> IngestionParams \<Rightarrow> ProgressUpdate list go" where
  "StartIngestion E sched cutoff params =
     (if SourceType params = ''clickhouse'' \<and> TargetType params = ''flatfile'' then
        (case IngestClickHouseToFlatFile E (TableName params) (Columns params)
                (FlatFileParams params) (Query params) of
           Panics msg \<Rightarrow> Panics msg
         | Returns ((result, err), file, fetched, wrote) \<Rightarrow>
             Returns (interleave sched (if err = None then fetched else take cutoff fetched) wrote @
                      [final_update result err]))
      else if SourceType params = ''flatfile'' \<and> TargetType params = ''clickhouse'' then
        (case IngestFlatFileToClickHouse E (FlatFileParams params) (TableName params)
                (Columns params) of
           Panics msg \<Rightarrow> Panics msg
         | Returns ((result, err), accepted, sent) \<Rightarrow>
             Returns (sent @ [final_update result err]))
      else Returns [final_update \<lparr>TotalRecords = 0\<rparr>
                      (Some (errorString ''invalid source or target type''))])"

section \<open>Properties of the transfers\<close>

text \<open>
  C1, for a transfer from ClickHouse to a file whose query fails. The fetching goroutine
  sends an error update with \<open>Completed = true\<close> and closes \<open>dataCh\<close>; WriteData
  then finds no row, writes the header and returns no error; StartIngestion sends the
  success update, again with \<open>Completed = true\<close>. The client receives two completed
  updates, the first of them not last, whatever the schedule.
\<close>

theorem StartIngestion_query_failure:
  assumes "SourceType params = ''clickhouse''" and "TargetType params = ''flatfile''"
    and "connected (conn E)"
    and "conn_Query (conn E)
           (build_query (TableName params) (Columns params) (Query params)) = Inl err"
    and "MkdirAll_Dir (fs E) (FilePath (FlatFileParams params)) = None"
    and "Create (fs E) (FilePath (FlatFileParams params)) = None"
    and "validDelim (delim_of (Delimiter (FlatFileParams params)))"
  shows "StartIngestion E sched cutoff params =
           Returns [\<lparr>Status = ''error'', Message = ''Failed to execute query: '' @ Error err,
                      Count = 0, Completed = True\<rparr>,
                    \<lparr>Status = ''success'', Message = ''Ingestion completed successfully'',
                      Count = 0, Completed = True\<rparr>]"
  using assms
  by (simp add: StartIngestion_def IngestClickHouseToFlatFile_def fetch_def WriteData_def
      Writer_Write_def final_update_def)

definition query_failure_env :: "(unit, unit, string) env" where
  "query_failure_env =
     \<lparr>lib = example_stdlib, zero = \<lparr>zeroFloat = (), zeroTime = ()\<rparr>, Sprint = (\<lambda>v. v),
      fs = \<lparr>Open = (\<lambda>path. Inl (errorString ''no such file'')),
             MkdirAll_Dir = (\<lambda>path. None), Create = (\<lambda>path. None)\<rparr>,
      cx = background,
      config = \<lparr>BatchSize = 10000, ProgressReportSize = 5000, MaxPreviewRows = 100\<rparr>,
      conn = \<lparr>connected = True, conn_Exec = (\<lambda>query. None),
               conn_AsyncInsert = (\<lambda>accepted query batch. None),
               conn_Query = (\<lambda>query. Inl (errorString ''unknown table''))\<rparr>\<rparr>"

definition query_failure_params :: IngestionParams where
  "query_failure_params =
     \<lparr>SourceType = ''clickhouse'', TargetType = ''flatfile'', TableName = ''t'',
      FlatFileParams = \<lparr>FilePath = ''out.csv'', Delimiter = '',''\<rparr>,
      Columns = [\<lparr>Column.Name = ''a'', Type = ''String''\<rparr>], Query = []\<rparr>"

theorem StartIngestion_query_failure_witness:
  "StartIngestion query_failure_env [] 0 query_failure_params =
     Returns [\<lparr>Status = ''error'', Message = ''Failed to execute query: unknown table'',
                Count = 0, Completed = True\<rparr>,
              \<lparr>Status = ''success'', Message = ''Ingestion completed successfully'',
                Count = 0, Completed = True\<rparr>]"
  using StartIngestion_query_failure
    [of query_failure_params query_failure_env "errorString ''unknown table''" "[]" 0]
  by (simp add: query_failure_env_def query_failure_params_def delim_of_def runes.simps
      validDelim_def ValidRune_def RuneError_def byte_def)

subsection \<open>InsertData: what is inserted and what is reported\<close>

lemma insert_rows_mono:
  "insert_rows cfg dr ctx query data totalRows batch lastReported accepted sent =
     ((n, err), batch', accepted', sent') \<Longrightarrow> totalRows \<le> n"
proof (induction data arbitrary: totalRows batch lastReported accepted sent)
  case Nil
  then show ?case by simp
next
  case (Cons rowData data)
  from Cons.prems show ?case
    by (auto split: if_splits option.splits dest!: Cons.IH)
qed

lemma insert_rows_inserted:
  "insert_rows cfg dr ctx query data totalRows batch lastReported accepted sent =
     ((n, err), batch', accepted', sent') \<Longrightarrow>
   totalRows = int (length (concat accepted)) \<Longrightarrow>
   n = int (length (concat accepted')) \<and>
   (\<exists>consumed rest. data = consumed @ rest \<and>
      concat accepted' @ batch' = concat accepted @ batch @ consumed)"
proof (induction data arbitrary: totalRows batch lastReported accepted sent)
  case Nil
  then show ?case by auto
next
  case (Cons rowData data)
  let ?b = "batch @ [rowData]"
  let ?t = "totalRows + int (length ?b)"
  have t: "?t = int (length (concat (accepted @ [?b])))"
    using Cons.prems(2) by simp
  have step: "\<exists>consumed rest. rowData # data = consumed @ rest \<and>
      concat accepted' @ batch' = concat accepted @ batch @ consumed"
    if "\<exists>consumed rest. data = consumed @ rest \<and>
      concat accepted' @ batch' = concat accepted @ ?b @ consumed"
  proof -
    from that obtain consumed rest where
      "data = consumed @ rest" "concat accepted' @ batch' = concat accepted @ ?b @ consumed"
      by blast
    then have "rowData # data = (rowData # consumed) @ rest \<and>
      concat accepted' @ batch' = concat accepted @ batch @ (rowData # consumed)"
      by simp
    then show ?thesis by blast
  qed
  have step': "\<exists>consumed rest. rowData # data = consumed @ rest \<and>
      concat accepted' @ batch' = concat accepted @ batch @ consumed"
    if "\<exists>consumed rest. data = consumed @ rest \<and>
      concat accepted' @ batch' = concat (accepted @ [?b]) @ [] @ consumed"
    using that step by simp
  have now: "\<exists>consumed rest. rowData # data = consumed @ rest \<and>
      concat accepted @ ?b = concat accepted @ batch @ consumed"
    by (rule exI [of _ "[rowData]"], rule exI [of _ data]) simp
  have now': "\<exists>consumed rest. rowData # data = consumed @ rest \<and>
      concat (accepted @ [?b]) @ [] = concat accepted @ batch @ consumed"
    by (rule exI [of _ "[rowData]"], rule exI [of _ data]) simp
  show ?case
  proof (cases "int (length ?b) \<ge> BatchSize cfg")
    case False
    with Cons.prems(1) have
      "insert_rows cfg dr ctx query data totalRows ?b lastReported accepted sent =
         ((n, err), batch', accepted', sent')"
      by simp
    from Cons.IH [OF this Cons.prems(2)] step show ?thesis by blast
  next
    case full: True
    show ?thesis
    proof (cases "conn_AsyncInsert dr accepted query ?b")
      case (Some e)
      with full Cons.prems now show ?thesis by auto
    next
      case None
      show ?thesis
      proof (cases "?t - lastReported \<ge> ProgressReportSize cfg")
        case False
        with full None Cons.prems(1) have
          "insert_rows cfg dr ctx query data ?t [] lastReported (accepted @ [?b]) sent =
             ((n, err), batch', accepted', sent')"
          by simp
        from Cons.IH [OF this t] step' show ?thesis by blast
      next
        case report: True
        show ?thesis
        proof (cases "ctx ''InsertData.progress'' (nat ?t)")
          case True
          with full None report Cons.prems(1) have
            "n = ?t" "batch' = []" "accepted' = accepted @ [?b]"
            by simp_all
          with t now' show ?thesis by simp
        next
          case False
          with full None report Cons.prems(1) have
            "insert_rows cfg dr ctx query data ?t [] ?t (accepted @ [?b])
               (sent @ [\<lparr>Status = ''processing'',
                         Message = ''Inserted '' @ Itoa ?t @ '' rows'',
                         Count = ?t, Completed = False\<rparr>]) =
               ((n, err), batch', accepted', sent')"
            by simp
          from Cons.IH [OF this t] step' show ?thesis by blast
        qed
      qed
    qed
  qed
qed

lemma insert_rows_sent:
  "insert_rows cfg dr ctx query data totalRows batch lastReported accepted sent =
     ((n, err), batch', accepted', sent') \<Longrightarrow>
   u \<in> set sent' \<Longrightarrow>
   u \<in> set sent \<or> (Status u = ''processing'' \<and> \<not> Completed u \<and> Count u \<le> n)"
proof (induction data arbitrary: totalRows batch lastReported accepted sent)
  case Nil
  then show ?case by simp
next
  case (Cons rowData data)
  let ?b = "batch @ [rowData]"
  let ?t = "totalRows + int (length ?b)"
  show ?case
  proof (cases "int (length ?b) \<ge> BatchSize cfg \<and> conn_AsyncInsert dr accepted query ?b = None \<and>
      ?t - lastReported \<ge> ProgressReportSize cfg \<and> \<not> ctx ''InsertData.progress'' (nat ?t)")
    case True
    with Cons.prems(1) have run:
      "insert_rows cfg dr ctx query data ?t [] ?t (accepted @ [?b])
         (sent @ [\<lparr>Status = ''processing'',
                   Message = ''Inserted '' @ Itoa ?t @ '' rows'',
                   Count = ?t, Completed = False\<rparr>]) =
         ((n, err), batch', accepted', sent')"
      by simp
    from insert_rows_mono [OF run] have "?t \<le> n" .
    with Cons.IH [OF run Cons.prems(2)] show ?thesis by auto
  next
    case False
    with Cons.prems show ?thesis
      by (auto split: if_splits option.splits dest: Cons.IH)
  qed
qed

lemma insert_rows_rejected:
  "insert_rows cfg dr ctx query data totalRows batch lastReported accepted sent =
     ((n, Some (wrapError msg e)), batch', accepted', sent') \<Longrightarrow>
   msg = ''failed to insert batch'' \<and> batch' \<noteq> [] \<and>
   conn_AsyncInsert dr accepted' query batch' = Some e"
proof (induction data arbitrary: totalRows batch lastReported accepted sent)
  case Nil
  then show ?case by simp
next
  case (Cons rowData data)
  from Cons.prems show ?case
    by (auto split: if_splits option.splits dest!: Cons.IH)
qed

definition insert_query :: "string \<Rightarrow> Column list \<Rightarrow> string" where
  "insert_query tableName columns =
     ''INSERT INTO '' @ tableName @ '' ('' @ Join (map Column.Name columns) '', '' @ '') VALUES''"

lemma InsertData_inserted:
  assumes "InsertData cfg dr ctx tableName columns data = Returns ((n, err), accepted, sent)"
  shows "n = int (length (concat accepted)) \<and> concat accepted = take (nat n) data \<and>
    (\<forall>u \<in> set sent. Status u = ''processing'' \<and> \<not> Completed u \<and> Count u \<le> n) \<and>
    (\<forall>msg e. err = Some (wrapError msg e) \<longrightarrow>
       (\<exists>batch. batch \<noteq> [] \<and>
          conn_AsyncInsert dr accepted (insert_query tableName columns) batch = Some e \<and>
          concat accepted @ batch = take (length (concat accepted @ batch)) data))"
proof (cases "connected dr \<and> \<not> makeslice_panics 24 (BatchSize cfg)")
  case False
  with assms have "n = 0 \<and> accepted = [] \<and> sent = [] \<and>
      err = Some (errorString ''not connected to ClickHouse'')"
    by (auto simp: InsertData_def Let_def split: if_splits)
  then show ?thesis by simp
next
  case ok: True
  let ?q = "insert_query tableName columns"
  obtain n1 err1 batch1 accepted1 sent1 where loop:
    "insert_rows cfg dr ctx ?q data 0 [] 0 [] [] = ((n1, err1), batch1, accepted1, sent1)"
    by (metis prod.exhaust)
  from insert_rows_inserted [OF loop] have
    n1: "n1 = int (length (concat accepted1))" and
    "\<exists>rest. data = (concat accepted1 @ batch1) @ rest"
    by auto
  then obtain rest where data: "data = (concat accepted1 @ batch1) @ rest"
    by blast
  have sent1: "\<forall>v \<in> set sent1. Status v = ''processing'' \<and> \<not> Completed v \<and> Count v \<le> n1"
    using insert_rows_sent [OF loop] by auto
  have pre: "concat accepted1 = take (nat n1) data"
    using data n1 by simp
  have pre': "concat accepted1 @ batch1 = take (length (concat accepted1 @ batch1)) data"
    using data by simp
  have pre'': "concat (accepted1 @ [batch1]) = take (nat (n1 + int (length batch1))) data"
  proof -
    have "nat (n1 + int (length batch1)) = length (concat accepted1 @ batch1)"
      using n1 by simp
    then show ?thesis using data by simp
  qed
  from assms ok loop consider
      (loop_err) e1 where "err1 = Some e1" "n = n1" "err = Some e1" "accepted = accepted1"
        "sent = sent1"
    | (final_err) e1 where "err1 = None" "batch1 \<noteq> []"
        "conn_AsyncInsert dr accepted1 ?q batch1 = Some e1" "n = n1"
        "err = Some (wrapError ''failed to insert final batch'' e1)" "accepted = accepted1"
        "sent = sent1"
    | (final_ok) "err1 = None" "batch1 \<noteq> []" "n = n1 + int (length batch1)" "err = None"
        "accepted = accepted1 @ [batch1]" "sent = sent1"
    | (no_final) "err1 = None" "batch1 = []" "n = n1" "err = None" "accepted = accepted1"
        "sent = sent1"
    by (auto simp: InsertData_def Let_def insert_query_def split: if_splits option.splits)
  then show ?thesis
  proof cases
    case loop_err
    have "\<forall>msg e. err = Some (wrapError msg e) \<longrightarrow> batch1 \<noteq> [] \<and>
        conn_AsyncInsert dr accepted1 ?q batch1 = Some e"
      using insert_rows_rejected [of cfg dr ctx ?q data 0 "[]" 0 "[]" "[]" n1 _ _
          batch1 accepted1 sent1] loop loop_err by auto
    then have "\<forall>msg e. err = Some (wrapError msg e) \<longrightarrow>
       (\<exists>batch. batch \<noteq> [] \<and> conn_AsyncInsert dr accepted ?q batch = Some e \<and>
          concat accepted @ batch = take (length (concat accepted @ batch)) data)"
      using pre' loop_err(4) by blast
    moreover have "n = int (length (concat accepted))"
      using loop_err n1 by simp
    moreover have "concat accepted = take (nat n) data"
      using loop_err pre by simp
    moreover have "\<forall>u \<in> set sent. Status u = ''processing'' \<and> \<not> Completed u \<and> Count u \<le> n"
      using loop_err sent1 by simp
    ultimately show ?thesis by blast
  next
    case final_err
    have "\<forall>msg e. err = Some (wrapError msg e) \<longrightarrow>
       (\<exists>batch. batch \<noteq> [] \<and> conn_AsyncInsert dr accepted ?q batch = Some e \<and>
          concat accepted @ batch = take (length (concat accepted @ batch)) data)"
      using pre' final_err(2,3,5,6) by blast
    moreover have "n = int (length (concat accepted))"
      using final_err n1 by simp
    moreover have "concat accepted = take (nat n) data"
      using final_err pre by simp
    moreover have "\<forall>u \<in> set sent. Status u = ''processing'' \<and> \<not> Completed u \<and> Count u \<le> n"
      using final_err sent1 by simp
    ultimately show ?thesis by blast
  next
    case final_ok
    have "n = int (length (concat accepted))"
      using final_ok n1 by simp
    moreover have "concat accepted = take (nat n) data"
      using final_ok pre'' by simp
    moreover have "\<forall>u \<in> set sent. Status u = ''processing'' \<and> \<not> Completed u \<and> Count u \<le> n"
      using final_ok sent1 by auto
    ultimately show ?thesis using final_ok(4) by simp
  next
    case no_final
    have "n = int (length (concat accepted))"
      using no_final n1 by simp
    moreover have "concat accepted = take (nat n) data"
      using no_final pre by simp
    moreover have "\<forall>u \<in> set sent. Status u = ''processing'' \<and> \<not> Completed u \<and> Count u \<le> n"
      using no_final sent1 by simp
    ultimately show ?thesis using no_final(4) by simp
  qed
qed

text \<open>The equations that evaluate the csv reader and writer on a given input.\<close>

lemmas csv_eval =
  readLine_def ReadSlice_def normalizeCRLF_def dropTrailingCR_def NL_def CR_def DQ_def
  lengthNL_def nextLine.simps parseField.simps parseQuoted.simps trimLeadingSpace.simps
  IsSpace_def byte_def EncodeRune_def Read_def readAll.simps validDelim_def ValidRune_def
  RuneError_def delim_of_def runes.simps Let_def char_of_def bit_Suc_0_iff
  Writer_Write_def fieldNeedsQuotes_def

text \<open>
  A transfer from a file of six rows with batches of two and a progress update every
  two rows: the server takes the first two batches and rejects the third.
\<close>

definition batch_failure_env :: "(unit, unit, string) env" where
  "batch_failure_env =
     \<lparr>lib = example_stdlib, zero = \<lparr>zeroFloat = (), zeroTime = ()\<rparr>, Sprint = (\<lambda>v. v),
      fs = \<lparr>Open = (\<lambda>path. Inr ''id\<newline>1\<newline>2\<newline>3\<newline>4\<newline>5\<newline>6\<newline>''),
             MkdirAll_Dir = (\<lambda>path. None), Create = (\<lambda>path. None)\<rparr>,
      cx = background,
      config = \<lparr>BatchSize = 2, ProgressReportSize = 2, MaxPreviewRows = 100\<rparr>,
      conn = \<lparr>connected = True, conn_Exec = (\<lambda>query. None),
               conn_AsyncInsert = (\<lambda>accepted query batch.
                 if length accepted < 2 then None else Some (errorString ''rejected'')),
               conn_Query = (\<lambda>query. Inl (errorString ''unknown table''))\<rparr>\<rparr>"

definition batch_failure_params :: IngestionParams where
  "batch_failure_params =
     \<lparr>SourceType = ''flatfile'', TargetType = ''clickhouse'', TableName = ''t'',
      FlatFileParams = \<lparr>FilePath = ''in.csv'', Delimiter = '',''\<rparr>,
      Columns = [\<lparr>Column.Name = ''id'', Type = ''String''\<rparr>], Query = []\<rparr>"

definition batch_failure_rows :: "(unit, unit) val list list" where
  "batch_failure_rows =
     [[VString ''1''], [VString ''2''], [VString ''3''], [VString ''4''], [VString ''5''],
      [VString ''6'']]"

lemma batch_failure_ReadData:
  "ReadData (lib batch_failure_env) (zero batch_failure_env) (fs batch_failure_env)
     (cx batch_failure_env) (FilePath (FlatFileParams batch_failure_params))
     (Delimiter (FlatFileParams batch_failure_params)) (Columns batch_failure_params) =
   Inr batch_failure_rows"
  by (simp add: batch_failure_env_def batch_failure_params_def batch_failure_rows_def
      ReadData_def read_row_def convertValue.simps HasPrefix_def HasSuffix_def background_def
      csv_eval)

lemma batch_failure_InsertData:
  "InsertData (config batch_failure_env) (conn batch_failure_env) (cx batch_failure_env)
     (TableName batch_failure_params) (Columns batch_failure_params) batch_failure_rows =
   Returns ((4, Some (wrapError ''failed to insert batch'' (errorString ''rejected''))),
            [[[VString ''1''], [VString ''2'']], [[VString ''3''], [VString ''4'']]],
            [\<lparr>Status = ''processing'', Message = ''Inserted 2 rows'', Count = 2,
               Completed = False\<rparr>,
             \<lparr>Status = ''processing'', Message = ''Inserted 4 rows'', Count = 4,
               Completed = False\<rparr>])"
  by (simp add: batch_failure_env_def batch_failure_params_def batch_failure_rows_def
      InsertData_def makeslice_panics_def maxAlloc_def background_def Itoa_def digits.simps)

lemma batch_failure_CreateTable:
  "CreateTable (conn batch_failure_env) (TableName batch_failure_params)
     (Columns batch_failure_params) = None"
  by (simp add: batch_failure_env_def batch_failure_params_def CreateTable_def)

text \<open>
  C2, as the code has it. In a transfer from a file to ClickHouse in which AsyncInsert
  rejects a batch, InsertData stops there: the rows that the server has accepted are the
  first \<open>n\<close> rows read, the rejected batch is made of the rows that follow them, and
  the updates sent before are processing updates whose counts do not exceed \<open>n\<close>.
  InsertData returns the count \<open>n\<close> together with the error. The count goes no
  further: IngestFlatFileToClickHouse returns \<open>model.IngestionResult{}\<close>, whose
  \<open>TotalRecords\<close> is 0, with the wrapped error, and the terminal update that
  StartIngestion sends has \<open>Count: 0\<close>. So the count of the rows inserted is reported
  to the client in the terminal update only when it is 0.
\<close>

theorem batch_failure_terminal_update:
  assumes "SourceType params = ''flatfile''" and "TargetType params = ''clickhouse''"
    and "CreateTable (conn E) (TableName params) (Columns params) = None"
    and "ReadData (lib E) (zero E) (fs E) (cx E) (FilePath (FlatFileParams params))
           (Delimiter (FlatFileParams params)) (Columns params) = Inr data"
    and "InsertData (config E) (conn E) (cx E) (TableName params) (Columns params) data =
           Returns ((n, Some (wrapError msg err)), accepted, sent)"
  shows "(\<exists>batch. batch \<noteq> [] \<and>
            conn_AsyncInsert (conn E) accepted
              (insert_query (TableName params) (Columns params)) batch = Some err \<and>
            concat accepted @ batch = take (length (concat accepted @ batch)) data) \<and>
         n = int (length (concat accepted)) \<and> concat accepted = take (nat n) data \<and>
         (\<forall>u \<in> set sent. Status u = ''processing'' \<and> \<not> Completed u \<and> Count u \<le> n) \<and>
         IngestFlatFileToClickHouse E (FlatFileParams params) (TableName params)
             (Columns params) =
           Returns ((\<lparr>TotalRecords = 0\<rparr>,
                     Some (wrapError ''failed to insert data'' (wrapError msg err))),
                    accepted, sent) \<and>
         StartIngestion E sched cutoff params =
           Returns (sent @ [\<lparr>Status = ''error'',
                              Message = ''failed to insert data: '' @ msg @ '': '' @ Error err,
                              Count = 0, Completed = True\<rparr>])"
proof -
  have ingest: "IngestFlatFileToClickHouse E (FlatFileParams params) (TableName params)
      (Columns params) =
      Returns ((\<lparr>TotalRecords = 0\<rparr>,
                Some (wrapError ''failed to insert data'' (wrapError msg err))),
               accepted, sent)"
    using assms by (simp add: IngestFlatFileToClickHouse_def)
  have stream: "StartIngestion E sched cutoff params =
      Returns (sent @ [\<lparr>Status = ''error'',
                         Message = ''failed to insert data: '' @ msg @ '': '' @ Error err,
                         Count = 0, Completed = True\<rparr>])"
    using assms(1,2) ingest by (simp add: StartIngestion_def final_update_def)
  from InsertData_inserted [OF assms(5)] have
    rej: "\<exists>batch. batch \<noteq> [] \<and>
            conn_AsyncInsert (conn E) accepted
              (insert_query (TableName params) (Columns params)) batch = Some err \<and>
            concat accepted @ batch = take (length (concat accepted @ batch)) data" and
    n: "n = int (length (concat accepted))" and
    pre: "concat accepted = take (nat n) data" and
    sent: "\<forall>u \<in> set sent. Status u = ''processing'' \<and> \<not> Completed u \<and> Count u \<le> n"
    by blast+
  from rej n pre sent ingest stream show ?thesis by blast
qed

theorem batch_failure_terminal_update_witness:
  "InsertData (config batch_failure_env) (conn batch_failure_env) (cx batch_failure_env)
     (TableName batch_failure_params) (Columns batch_failure_params) batch_failure_rows =
   Returns ((4, Some (wrapError ''failed to insert batch'' (errorString ''rejected''))),
            [[[VString ''1''], [VString ''2'']], [[VString ''3''], [VString ''4'']]],
            [\<lparr>Status = ''processing'', Message = ''Inserted 2 rows'', Count = 2,
               Completed = False\<rparr>,
             \<lparr>Status = ''processing'', Message = ''Inserted 4 rows'', Count = 4,
               Completed = False\<rparr>]) \<and>
   IngestFlatFileToClickHouse batch_failure_env (FlatFileParams batch_failure_params)
       (TableName batch_failure_params) (Columns batch_failure_params) =
     Returns ((\<lparr>TotalRecords = 0\<rparr>,
               Some (wrapError ''failed to insert data''
                 (wrapError ''failed to insert batch'' (errorString ''rejected'')))),
              [[[VString ''1''], [VString ''2'']], [[VString ''3''], [VString ''4'']]],
              [\<lparr>Status = ''processing'', Message = ''Inserted 2 rows'', Count = 2,
                 Completed = False\<rparr>,
               \<lparr>Status = ''processing'', Message = ''Inserted 4 rows'', Count = 4,
                 Completed = False\<rparr>]) \<and>
   StartIngestion batch_failure_env [] 0 batch_failure_params =
     Returns [\<lparr>Status = ''processing'', Message = ''Inserted 2 rows'', Count = 2,
                Completed = False\<rparr>,
              \<lparr>Status = ''processing'', Message = ''Inserted 4 rows'', Count = 4,
                Completed = False\<rparr>,
              \<lparr>Status = ''error'',
                Message = ''failed to insert data: failed to insert batch: rejected'',
                Count = 0, Completed = True\<rparr>]"
  using batch_failure_terminal_update
    [of batch_failure_params batch_failure_env batch_failure_rows 4
        "''failed to insert batch''" "errorString ''rejected''"
        "[[[VString ''1''], [VString ''2'']], [[VString ''3''], [VString ''4'']]]"
        "[\<lparr>Status = ''processing'', Message = ''Inserted 2 rows'', Count = 2,
            Completed = False\<rparr>,
          \<lparr>Status = ''processing'', Message = ''Inserted 4 rows'', Count = 4,
            Completed = False\<rparr>]" "[]" 0,
     OF _ _ batch_failure_CreateTable batch_failure_ReadData batch_failure_InsertData]
    batch_failure_InsertData
  by (simp add: batch_failure_params_def)

section \<open>Properties of the flat-file service\<close>



subsection \<open>Writing with the csv writer and reading back\<close>





lemma decode_ascii: "byte c < 0x80 \<Longrightarrow> DecodeRuneInString (c # s) = (byte c, 1)"
  by simp






lemma write_quoted_plain: "DQ \<notin> set p \<Longrightarrow> write_quoted p = p"
  by (induction p) auto


lemma write_quoted_set: "x \<noteq> DQ \<Longrightarrow> x \<in> set (write_quoted c) \<longleftrightarrow> x \<in> set c"
  by (induction c) auto





lemma byte_eq_iff: "byte c = byte d \<longleftrightarrow> c = d"
  by (simp add: byte_def)







text \<open>
  What the writer emits for a field, and for the fields of a record after the first
  one, each preceded by the delimiter.
\<close>

definition written_field :: "rune \<Rightarrow> string \<Rightarrow> string" where
  "written_field comma f =
     (if \<not> fieldNeedsQuotes comma f then f else [DQ] @ write_quoted f @ [DQ])"




lemma written_field_Nil: "written_field comma f = [] \<longleftrightarrow> f = []"
  by (auto simp: written_field_def fieldNeedsQuotes_def)

text \<open>
  The reader turns a carriage return followed by a line feed into a line feed, also
  inside a quoted field. \<open>has_CRLF s\<close> says that \<open>s\<close> contains that sequence.
\<close>

fun has_CRLF :: "string \<Rightarrow> bool" where
  "has_CRLF [] = False"
| "has_CRLF (a # s) = ((a = CR \<and> s \<noteq> [] \<and> hd s = NL) \<or> has_CRLF s)"




lemma no_CR_no_CRLF: "CR \<notin> set s \<Longrightarrow> \<not> has_CRLF s"
  by (induction s) auto




text \<open>
  A piece of a written line that can be put next to any other without making the
  sequence: it has none, does not end with a carriage return and does not start with a
  line feed.
\<close>

definition safe :: "string \<Rightarrow> bool" where
  "safe s \<longleftrightarrow> \<not> has_CRLF s \<and> (s \<noteq> [] \<longrightarrow> last s \<noteq> CR \<and> hd s \<noteq> NL)"

lemma safe_Nil: "safe []"
  by (simp add: safe_def)




















subsection \<open>Files of written records\<close>

text \<open>
  The bytes of a file whose lines are the given records as the writer emits them, one
  \<open>Writer.Write\<close> each.
\<close>

definition csv_lines :: "rune \<Rightarrow> string list list \<Rightarrow> string" where
  "csv_lines comma recs = concat (map (\<lambda>r. write_fields comma 0 r @ [NL]) recs)"




lemma csv_lines_append:
  "csv_lines comma (a @ b) = csv_lines comma a @ csv_lines comma b"
  by (simp add: csv_lines_def)













subsection \<open>Writing a file and reading it back\<close>










subsection \<open>The delimiter of the four operations\<close>
















end
